theory Spec2Isabelle
  imports Main "HOL-Library.Word"
begin

unbundle bit_operations_syntax

section \<open>Element types: numpy dtypes and their ctypes layouts\<close>

text \<open>
  The module \<^verbatim>\<open>_mlir/runtime/np_to_memref.py\<close> converts between numpy arrays and the
  memref descriptors of the MLIR runtime. The model is for a 64-bit host: an address and a
  \<^verbatim>\<open>c_longlong\<close> are both 64-bit words, as numpy's \<^verbatim>\<open>intp\<close> is.

  Python exceptions are values of the type \<open>error\<close>. \<open>NotImplementedError\<close> is what
  \<^verbatim>\<open>np.ctypeslib.as_ctypes_type\<close> raises for a dtype without ctypes equivalent (the
  specification's UnsupportedDtype); \<open>AssertionError\<close> with its message is what the two
  \<^verbatim>\<open>assert\<close> statements of \<^verbatim>\<open>to_numpy\<close> raise (the specification's
  MissingExtendedTypeSupport); \<open>AttributeError\<close> names the attribute that a ctypes structure
  does not have; \<open>ValueError\<close> is ctypes' answer to a NULL pointer dereference and to a
  negative array length; \<open>OverflowError\<close> is its answer to an array length that is no index
  and to an array type of more bytes than an index can count; \<open>IndexError\<close> is ctypes' answer to too many array initialisers;
  \<open>TypeError\<close> is a field read at another type than the field has; \<open>MemoryError\<close> is a
  failed allocation; \<open>SegFault\<close> stands for a read outside every live ctypes object, which
  Python does not report.
\<close>

type_synonym addr = "64 word"
type_synonym byte = "8 word"
type_synonym longlong = "64 word"

datatype error =
    NotImplementedError
  | AssertionError string
  | AttributeError string
  | ValueError string
  | OverflowError string
  | IndexError
  | TypeError
  | MemoryError
  | SegFault

text \<open>
  The scalar dtypes of numpy, with the two extended types of \<^verbatim>\<open>ml_dtypes\<close>.
  \<open>np_longdouble\<close> and \<open>np_object\<close> stand for the dtypes that have no ctypes equivalent.
\<close>

datatype np_dtype =
    np_bool
  | np_int8 | np_int16 | np_int32 | np_int64
  | np_uint8 | np_uint16 | np_uint32 | np_uint64
  | np_float16 | np_float32 | np_float64
  | np_complex64 | np_complex128
  | np_bfloat16 | np_float8_e5m2
  | np_longdouble | np_object

fun itemsize :: "np_dtype \<Rightarrow> nat" where
  "itemsize np_bool = 1"
| "itemsize np_int8 = 1"
| "itemsize np_int16 = 2"
| "itemsize np_int32 = 4"
| "itemsize np_int64 = 8"
| "itemsize np_uint8 = 1"
| "itemsize np_uint16 = 2"
| "itemsize np_uint32 = 4"
| "itemsize np_uint64 = 8"
| "itemsize np_float16 = 2"
| "itemsize np_float32 = 4"
| "itemsize np_float64 = 8"
| "itemsize np_complex64 = 8"
| "itemsize np_complex128 = 16"
| "itemsize np_bfloat16 = 2"
| "itemsize np_float8_e5m2 = 1"
| "itemsize np_longdouble = 16"
| "itemsize np_object = 8"

text \<open>The simple types of ctypes that the module and numpy's scalar map use.\<close>

datatype simple_ctype =
    c_bool
  | c_int8 | c_int16 | c_int32 | c_int64
  | c_uint8 | c_uint16 | c_uint32 | c_uint64
  | c_float | c_double

fun simple_sizeof :: "simple_ctype \<Rightarrow> nat" where
  "simple_sizeof c_bool = 1"
| "simple_sizeof c_int8 = 1"
| "simple_sizeof c_int16 = 2"
| "simple_sizeof c_int32 = 4"
| "simple_sizeof c_int64 = 8"
| "simple_sizeof c_uint8 = 1"
| "simple_sizeof c_uint16 = 2"
| "simple_sizeof c_uint32 = 4"
| "simple_sizeof c_uint64 = 8"
| "simple_sizeof c_float = 4"
| "simple_sizeof c_double = 8"

text \<open>
  An element layout is a simple ctypes type or one of the five structure classes that the
  module declares (\<^verbatim>\<open>C128\<close>, \<^verbatim>\<open>C64\<close>, \<^verbatim>\<open>F16\<close>, \<^verbatim>\<open>BF16\<close>, \<^verbatim>\<open>F8E5M2\<close>).
\<close>

datatype ctype = Simple simple_ctype | C128 | C64 | F16 | BF16 | F8E5M2

fun class_fields :: "ctype \<Rightarrow> (string \<times> simple_ctype) list" where
  "class_fields C128 = [(''real'', c_double), (''imag'', c_double)]"
| "class_fields C64 = [(''real'', c_float), (''imag'', c_float)]"
| "class_fields F16 = [(''f16'', c_int16)]"
| "class_fields BF16 = [(''bf16'', c_int16)]"
| "class_fields F8E5M2 = [(''f8E5M2'', c_int8)]"
| "class_fields (Simple t) = []"

subsection \<open>Structure layout\<close>

text \<open>
  ctypes lays a structure out as the C compiler does: every field at the next multiple of
  its alignment, the whole structure padded to the largest alignment of its fields.
  \<open>layout\<close> gives every field its byte offset; \<open>sz\<close> and \<open>al\<close> are the size and the
  alignment of a field type.
\<close>

definition align_up :: "nat \<Rightarrow> nat \<Rightarrow> nat" where
  "align_up off a = ((off + a - 1) div a) * a"

fun layout :: "('t \<Rightarrow> nat) \<Rightarrow> ('t \<Rightarrow> nat) \<Rightarrow> nat \<Rightarrow> (string \<times> 't) list
    \<Rightarrow> (string \<times> nat \<times> 't) list" where
  "layout sz al off [] = []"
| "layout sz al off ((n, t) # fs) =
     (let off' = align_up off (al t) in (n, off', t) # layout sz al (off' + sz t) fs)"

fun layout_end :: "('t \<Rightarrow> nat) \<Rightarrow> ('t \<Rightarrow> nat) \<Rightarrow> nat \<Rightarrow> (string \<times> 't) list \<Rightarrow> nat" where
  "layout_end sz al off [] = off"
| "layout_end sz al off ((n, t) # fs) = layout_end sz al (align_up off (al t) + sz t) fs"

definition struct_sizeof :: "('t \<Rightarrow> nat) \<Rightarrow> ('t \<Rightarrow> nat) \<Rightarrow> (string \<times> 't) list \<Rightarrow> nat" where
  "struct_sizeof sz al fs = align_up (layout_end sz al 0 fs) (fold max (map (al \<circ> snd) fs) 1)"

text \<open>\<^verbatim>\<open>ctypes.sizeof\<close> of an element layout; a simple type is aligned to its size.\<close>

fun sizeof :: "ctype \<Rightarrow> nat" where
  "sizeof (Simple t) = simple_sizeof t"
| "sizeof c = struct_sizeof simple_sizeof simple_sizeof (class_fields c)"

subsection \<open>The scalar-type registry: \<^verbatim>\<open>as_ctype\<close> and \<^verbatim>\<open>to_numpy\<close>\<close>

text \<open>
  \<^verbatim>\<open>np.ctypeslib.as_ctypes_type\<close> is numpy's: on a scalar dtype it looks the dtype up in
  the map built from the simple ctypes integer, floating and boolean types and raises
  \<^verbatim>\<open>NotImplementedError\<close> when the dtype is not there.
\<close>

fun as_ctypes_type :: "np_dtype \<Rightarrow> error + simple_ctype" where
  "as_ctypes_type np_bool = Inr c_bool"
| "as_ctypes_type np_int8 = Inr c_int8"
| "as_ctypes_type np_int16 = Inr c_int16"
| "as_ctypes_type np_int32 = Inr c_int32"
| "as_ctypes_type np_int64 = Inr c_int64"
| "as_ctypes_type np_uint8 = Inr c_uint8"
| "as_ctypes_type np_uint16 = Inr c_uint16"
| "as_ctypes_type np_uint32 = Inr c_uint32"
| "as_ctypes_type np_uint64 = Inr c_uint64"
| "as_ctypes_type np_float32 = Inr c_float"
| "as_ctypes_type np_float64 = Inr c_double"
| "as_ctypes_type dtp = Inl NotImplementedError"

text \<open>The dtype numpy gives an array over a simple ctypes type.\<close>

fun simple_dtype :: "simple_ctype \<Rightarrow> np_dtype" where
  "simple_dtype c_bool = np_bool"
| "simple_dtype c_int8 = np_int8"
| "simple_dtype c_int16 = np_int16"
| "simple_dtype c_int32 = np_int32"
| "simple_dtype c_int64 = np_int64"
| "simple_dtype c_uint8 = np_uint8"
| "simple_dtype c_uint16 = np_uint16"
| "simple_dtype c_uint32 = np_uint32"
| "simple_dtype c_uint64 = np_uint64"
| "simple_dtype c_float = np_float32"
| "simple_dtype c_double = np_float64"

text \<open>
  \<^verbatim>\<open>as_ctype(dtp)\<close>. The flag \<open>ml\<close> says that the import of \<^verbatim>\<open>ml_dtypes\<close> succeeded
  (\<^verbatim>\<open>ml_dtypes is not None\<close>).
\<close>

definition as_ctype :: "bool \<Rightarrow> np_dtype \<Rightarrow> error + ctype" where
  "as_ctype ml dtp =
     (if dtp = np_complex128 then Inr C128
      else if dtp = np_complex64 then Inr C64
      else if dtp = np_float16 then Inr F16
      else if ml \<and> dtp = np_bfloat16 then Inr BF16
      else if ml \<and> dtp = np_float8_e5m2 then Inr F8E5M2
      else map_sum id Simple (as_ctypes_type dtp))"

text \<open>
  A numpy array is its dtype, the address of its first element, its extents and its byte
  strides (\<^verbatim>\<open>intp\<close> values, one per dimension). The arrays that
  \<^verbatim>\<open>np.ctypeslib.as_array\<close> builds over a ctypes pointer carry the ctypes element type
  as their dtype, the arrays of the caller a numpy dtype.
\<close>

record 'd ndarray =
  dtype :: 'd
  data :: addr
  shape :: "longlong list"
  strides :: "longlong list"

definition ndim :: "'d ndarray \<Rightarrow> nat" where
  "ndim a = length (shape a)"

text \<open>\<^verbatim>\<open>array.view(d)\<close> for a dtype of the same item size: the same memory, read as \<open>d\<close>.\<close>

definition view :: "'c ndarray \<Rightarrow> 'd \<Rightarrow> 'd ndarray" where
  "view a d = \<lparr>dtype = d, data = data a, shape = shape a, strides = strides a\<rparr>"

definition bfloat16_msg :: string where
  "bfloat16_msg = ''bfloat16 requires the ml_dtypes package, please run:''
     @ [CHR 0x0A, CHR 0x0A] @ ''pip install ml_dtypes'' @ [CHR 0x0A]"

definition float8_e5m2_msg :: string where
  "float8_e5m2_msg = ''float8_e5m2 requires the ml_dtypes package, please run:''
     @ [CHR 0x0A, CHR 0x0A] @ ''pip install ml_dtypes'' @ [CHR 0x0A]"

text \<open>
  \<^verbatim>\<open>to_numpy(array)\<close>, the tests and the two assertions in the order of the source. An array
  over a simple ctypes type is returned as it is; numpy knows it under \<open>simple_dtype\<close>.
  The last case distinction only takes the simple type out of the element type: the five
  classes have returned or raised before it, so its second branch is never reached.
\<close>

definition to_numpy :: "bool \<Rightarrow> ctype ndarray \<Rightarrow> error + np_dtype ndarray" where
  "to_numpy ml array =
     (if dtype array = C128 then Inr (view array np_complex128)
      else if dtype array = C64 then Inr (view array np_complex64)
      else if dtype array = F16 then Inr (view array np_float16)
      else if dtype array = BF16 \<and> \<not> ml then Inl (AssertionError bfloat16_msg)
      else if dtype array = BF16 then Inr (view array np_bfloat16)
      else if dtype array = F8E5M2 \<and> \<not> ml then Inl (AssertionError float8_e5m2_msg)
      else if dtype array = F8E5M2 then Inr (view array np_float8_e5m2)
      else (case dtype array of
              Simple t \<Rightarrow> Inr (view array (simple_dtype t))
            | _ \<Rightarrow> Inl TypeError))"

text \<open>Whether a result is the raising of the assertion that asks for \<^verbatim>\<open>ml_dtypes\<close>.\<close>

fun raises_missing_ml_dtypes :: "error + 'a \<Rightarrow> bool" where
  "raises_missing_ml_dtypes (Inl (AssertionError msg)) = True"
| "raises_missing_ml_dtypes r = False"

section \<open>ctypes objects in memory\<close>

text \<open>
  A Python exception ends the call: \<open>bind_err\<close> runs the rest of a function on the value of
  a step that returned and passes the exception of a step that raised.
\<close>

definition bind_err :: "error + 'a \<Rightarrow> ('a \<Rightarrow> error + 'b) \<Rightarrow> error + 'b" where
  "bind_err m f = (case m of Inl e \<Rightarrow> Inl e | Inr x \<Rightarrow> f x)"

text \<open>\<^verbatim>\<open>str(n)\<close> for an integer: its decimal digits, as the messages of ctypes print it.\<close>

fun str_nat :: "nat \<Rightarrow> string" where
  "str_nat n =
     (if n < 10 then [char_of (48 + n)] else str_nat (n div 10) @ [char_of (48 + n mod 10)])"

declare str_nat.simps [simp del]

definition str_int :: "int \<Rightarrow> string" where
  "str_int i = (if i < 0 then CHR ''-'' # str_nat (nat (- i)) else str_nat (nat i))"

text \<open>
  Sizes and lengths in CPython are \<^verbatim>\<open>Py_ssize_t\<close>, 64 bits with sign on this host.
  \<^verbatim>\<open>ctype * n\<close> makes the array type of \<open>n\<close> elements: \<open>n\<close> must be an index
  (\<^verbatim>\<open>OverflowError\<close> otherwise), must not be negative (\<^verbatim>\<open>ValueError\<close>, the message
  ends with the length), and \<open>n\<close> elements must not take more than
  \<^verbatim>\<open>PY_SSIZE_T_MAX\<close> bytes (\<^verbatim>\<open>OverflowError\<close>). \<open>c_array_type\<close> returns the size
  of the array type in bytes.
\<close>

definition PY_SSIZE_T_MAX :: int where
  "PY_SSIZE_T_MAX = 2 ^ 63 - 1"

definition index_msg :: string where
  "index_msg = ''cannot fit '' @ [CHR 0x27] @ ''int'' @ [CHR 0x27]
     @ '' into an index-sized integer''"

definition c_array_type :: "nat \<Rightarrow> int \<Rightarrow> error + nat" where
  "c_array_type itemsz n =
     (if n < - PY_SSIZE_T_MAX - 1 \<or> PY_SSIZE_T_MAX < n then Inl (OverflowError index_msg)
      else if n < 0 then Inl (ValueError (''Array length must be >= 0, not '' @ str_int n))
      else if itemsz \<noteq> 0 \<and> PY_SSIZE_T_MAX div int itemsz < n
        then Inl (OverflowError ''array too large'')
      else Inr (nat n * itemsz))"

text \<open>A 64-bit value in memory: eight bytes, the least significant first.\<close>

definition word_bytes :: "64 word \<Rightarrow> byte list" where
  "word_bytes w = map (\<lambda>i. ucast (drop_bit (8 * i) w)) [0..<8]"

definition bytes_word :: "byte list \<Rightarrow> 64 word" where
  "bytes_word bs = foldr (\<lambda>b w. ucast b OR push_bit 8 w) bs 0"

text \<open>
  The field types of the descriptor structures: \<^verbatim>\<open>c_longlong\<close>, \<^verbatim>\<open>c_void_p\<close>,
  \<^verbatim>\<open>POINTER(dtype)\<close> and \<^verbatim>\<open>c_longlong * n\<close>.
\<close>

datatype ftype = c_longlong | c_void_p | POINTER ctype | c_longlong_array nat

fun ftype_sizeof :: "ftype \<Rightarrow> nat" where
  "ftype_sizeof c_longlong = 8"
| "ftype_sizeof c_void_p = 8"
| "ftype_sizeof (POINTER t) = 8"
| "ftype_sizeof (c_longlong_array n) = n * 8"

fun ftype_alignment :: "ftype \<Rightarrow> nat" where
  "ftype_alignment c_longlong = 8"
| "ftype_alignment c_void_p = 8"
| "ftype_alignment (POINTER t) = 8"
| "ftype_alignment (c_longlong_array n) = 8"

text \<open>
  A structure class made by a \<^verbatim>\<open>class\<close> statement: Python makes a new class object every
  time the statement runs, so a class has an identity next to its name and
  \<^verbatim>\<open>_fields_\<close>.
\<close>

record struct_type =
  cls_id :: nat
  cls_name :: string
  cls_fields :: "(string \<times> ftype) list"

definition struct_layout :: "struct_type \<Rightarrow> (string \<times> nat \<times> ftype) list" where
  "struct_layout T = layout ftype_sizeof ftype_alignment 0 (cls_fields T)"

definition sizeof_struct :: "struct_type \<Rightarrow> nat" where
  "sizeof_struct T = struct_sizeof ftype_sizeof ftype_alignment (cls_fields T)"

definition field_lookup :: "struct_type \<Rightarrow> string \<Rightarrow> (nat \<times> ftype) option" where
  "field_lookup T name = map_of (struct_layout T) name"

text \<open>
  The interpreter state that the module touches: the number of classes made so far, the
  addresses that the allocator hands out next, and the buffers of the live ctypes objects
  by their base address.
\<close>

record interp =
  next_class :: nat
  free_addrs :: "addr list"
  heap :: "addr \<rightharpoonup> byte list"

text \<open>A ctypes pointer: the type it points to and the address it holds.\<close>

record 't pointer =
  pointee :: 't
  address :: addr

text \<open>A structure instance: its class and the address of its buffer.\<close>

record struct_instance =
  itype :: struct_type
  iaddr :: addr

text \<open>\<^verbatim>\<open>ctypes.pointer(x)\<close> and \<^verbatim>\<open>p[0]\<close>.\<close>

definition pointer :: "struct_instance \<Rightarrow> struct_type pointer" where
  "pointer x = \<lparr>pointee = itype x, address = iaddr x\<rparr>"

definition deref :: "struct_type pointer \<Rightarrow> error + struct_instance" where
  "deref p =
     (if address p = 0 then Inl (ValueError ''NULL pointer access'')
      else Inr \<lparr>itype = pointee p, iaddr = address p\<rparr>)"

text \<open>\<^verbatim>\<open>T()\<close>: a new instance, its buffer zeroed.\<close>

definition new_instance :: "struct_type \<Rightarrow> interp \<Rightarrow> error + struct_instance \<times> interp" where
  "new_instance T s =
     (case free_addrs s of
        [] \<Rightarrow> Inl MemoryError
      | a # rest \<Rightarrow>
          Inr (\<lparr>itype = T, iaddr = a\<rparr>,
               s\<lparr>free_addrs := rest, heap := (heap s)(a \<mapsto> replicate (sizeof_struct T) 0)\<rparr>))"

definition store_bytes :: "nat \<Rightarrow> byte list \<Rightarrow> byte list \<Rightarrow> byte list" where
  "store_bytes off bs buf = take off buf @ bs @ drop (off + length bs) buf"

text \<open>
  An assignment \<^verbatim>\<open>x.name = v\<close>. When the class has no field of that name Python keeps the
  value as a plain attribute of the Python object and the buffer stays as it is; a value of
  another type than the field's is a \<^verbatim>\<open>TypeError\<close>.
\<close>

definition setattr_bytes :: "struct_instance \<Rightarrow> string \<Rightarrow> (ftype \<Rightarrow> bool) \<Rightarrow> byte list \<Rightarrow> interp
    \<Rightarrow> error + interp" where
  "setattr_bytes x name accepts bs s =
     (case field_lookup (itype x) name of
        None \<Rightarrow> Inr s
      | Some (off, t) \<Rightarrow>
          if \<not> accepts t \<or> length bs \<noteq> ftype_sizeof t then Inl TypeError
          else (case heap s (iaddr x) of
                  None \<Rightarrow> Inl SegFault
                | Some buf \<Rightarrow>
                    if off + length bs \<le> length buf
                    then Inr (s\<lparr>heap := (heap s)(iaddr x \<mapsto> store_bytes off bs buf)\<rparr>)
                    else Inl SegFault))"

definition set_longlong :: "struct_instance \<Rightarrow> string \<Rightarrow> longlong \<Rightarrow> interp \<Rightarrow> error + interp" where
  "set_longlong x name v = setattr_bytes x name (\<lambda>t. t = c_longlong) (word_bytes v)"

definition set_void_p :: "struct_instance \<Rightarrow> string \<Rightarrow> addr \<Rightarrow> interp \<Rightarrow> error + interp" where
  "set_void_p x name v = setattr_bytes x name (\<lambda>t. t = c_void_p) (word_bytes v)"

definition set_pointer :: "struct_instance \<Rightarrow> string \<Rightarrow> ctype pointer \<Rightarrow> interp \<Rightarrow> error + interp" where
  "set_pointer x name p =
     setattr_bytes x name (\<lambda>t. t = POINTER (pointee p)) (word_bytes (address p))"

definition set_array :: "struct_instance \<Rightarrow> string \<Rightarrow> longlong list \<Rightarrow> interp \<Rightarrow> error + interp" where
  "set_array x name vs =
     setattr_bytes x name (\<lambda>t. t = c_longlong_array (length vs)) (concat (map word_bytes vs))"

text \<open>
  A read \<^verbatim>\<open>x.name\<close>: \<^verbatim>\<open>AttributeError\<close> when the class has no such field, otherwise
  the bytes of the field, decoded at the field's type.
\<close>

definition read_field :: "interp \<Rightarrow> struct_instance \<Rightarrow> string \<Rightarrow> error + ftype \<times> byte list" where
  "read_field s x name =
     (case field_lookup (itype x) name of
        None \<Rightarrow> Inl (AttributeError name)
      | Some (off, t) \<Rightarrow>
          (case heap s (iaddr x) of
             None \<Rightarrow> Inl SegFault
           | Some buf \<Rightarrow>
               if off + ftype_sizeof t \<le> length buf
               then Inr (t, take (ftype_sizeof t) (drop off buf))
               else Inl SegFault))"

definition get_longlong :: "interp \<Rightarrow> struct_instance \<Rightarrow> string \<Rightarrow> error + longlong" where
  "get_longlong s x name =
     bind_err (read_field s x name)
       (\<lambda>(t, bs). if t = c_longlong then Inr (bytes_word bs) else Inl TypeError)"

definition get_void_p :: "interp \<Rightarrow> struct_instance \<Rightarrow> string \<Rightarrow> error + addr" where
  "get_void_p s x name =
     bind_err (read_field s x name)
       (\<lambda>(t, bs). if t = c_void_p then Inr (bytes_word bs) else Inl TypeError)"

definition get_pointer :: "interp \<Rightarrow> struct_instance \<Rightarrow> string \<Rightarrow> error + ctype pointer" where
  "get_pointer s x name =
     bind_err (read_field s x name)
       (\<lambda>(t, bs). case t of
            POINTER c \<Rightarrow> Inr \<lparr>pointee = c, address = bytes_word bs\<rparr>
          | _ \<Rightarrow> Inl TypeError)"

definition array_words :: "nat \<Rightarrow> byte list \<Rightarrow> longlong list" where
  "array_words n bs = map (\<lambda>i. bytes_word (take 8 (drop (8 * i) bs))) [0..<n]"

definition get_array :: "interp \<Rightarrow> struct_instance \<Rightarrow> string \<Rightarrow> error + longlong list" where
  "get_array s x name =
     bind_err (read_field s x name)
       (\<lambda>(t, bs). case t of
            c_longlong_array n \<Rightarrow> Inr (array_words n bs)
          | _ \<Rightarrow> Inl TypeError)"

text \<open>
  \<^verbatim>\<open>(c_longlong * n)(*xs)\<close>: more than \<open>n\<close> initialisers are an \<^verbatim>\<open>IndexError\<close>, the
  elements without one are zero.
\<close>

definition c_longlong_array_init :: "nat \<Rightarrow> int list \<Rightarrow> error + longlong list" where
  "c_longlong_array_init n xs =
     (if n < length xs then Inl IndexError
      else Inr (map word_of_int xs @ replicate (n - length xs) 0))"

section \<open>The descriptor classes\<close>

text \<open>
  \<^verbatim>\<open>make_nd_memref_descriptor(rank, dtype)\<close>. The two \<^verbatim>\<open>c_longlong * rank\<close> in the
  field list are made first and raise for a rank that is negative or too large for an array
  type. A class of more than \<^verbatim>\<open>PY_SSIZE_T_MAX\<close> bytes is not made either: the size
  that ctypes computes overflows, and CPython 3.11 raises \<^verbatim>\<open>MemoryError\<close> (at some of
  these ranks the interpreter dies instead).
\<close>

definition make_nd_memref_descriptor :: "int \<Rightarrow> ctype \<Rightarrow> interp \<Rightarrow> error + struct_type \<times> interp"
  where
  "make_nd_memref_descriptor rank dtp s =
     bind_err (c_array_type (ftype_sizeof c_longlong) rank) (\<lambda>shape_bytes.
     bind_err (c_array_type (ftype_sizeof c_longlong) rank) (\<lambda>strides_bytes.
       (let T = \<lparr>cls_id = next_class s, cls_name = ''MemRefDescriptor'',
                  cls_fields =
                    [(''allocated'', c_longlong),
                     (''aligned'', POINTER dtp),
                     (''offset'', c_longlong),
                     (''shape'', c_longlong_array (nat rank)),
                     (''strides'', c_longlong_array (nat rank))]\<rparr>
        in if PY_SSIZE_T_MAX < int (sizeof_struct T) then Inl MemoryError
           else Inr (T, s\<lparr>next_class := Suc (next_class s)\<rparr>))))"

text \<open>\<^verbatim>\<open>make_zero_d_memref_descriptor(dtype)\<close>.\<close>

definition make_zero_d_memref_descriptor :: "ctype \<Rightarrow> interp \<Rightarrow> struct_type \<times> interp" where
  "make_zero_d_memref_descriptor dtp s =
     (\<lparr>cls_id = next_class s, cls_name = ''MemRefDescriptor'',
       cls_fields =
         [(''allocated'', c_longlong),
          (''aligned'', POINTER dtp),
          (''offset'', c_longlong)]\<rparr>,
      s\<lparr>next_class := Suc (next_class s)\<rparr>)"

text \<open>
  \<^verbatim>\<open>UnrankedMemRefDescriptor\<close>, made once when the module is imported: class number 0,
  before every class that a call makes.
\<close>

definition UnrankedMemRefDescriptor :: struct_type where
  "UnrankedMemRefDescriptor =
     \<lparr>cls_id = 0, cls_name = ''UnrankedMemRefDescriptor'',
      cls_fields = [(''rank'', c_longlong), (''descriptor'', c_void_p)]\<rparr>"

section \<open>Array to descriptor\<close>

text \<open>
  \<^verbatim>\<open>get_ranked_memref_descriptor(nparray)\<close>. \<^verbatim>\<open>nparray.ctypes.data\<close> is \<open>data\<close>,
  \<^verbatim>\<open>nparray.ctypes.shape\<close> the extents as an array of \<^verbatim>\<open>ndim\<close> integers, and
  \<^verbatim>\<open>x // nparray.itemsize\<close> Python's floor division.
\<close>

definition get_ranked_memref_descriptor :: "bool \<Rightarrow> np_dtype ndarray \<Rightarrow> interp
    \<Rightarrow> error + struct_instance \<times> interp" where
  "get_ranked_memref_descriptor ml nparray s =
     bind_err (as_ctype ml (dtype nparray)) (\<lambda>ctp.
       if ndim nparray = 0 then
         (case make_zero_d_memref_descriptor ctp s of (T, s) \<Rightarrow>
          bind_err (new_instance T s) (\<lambda>(x, s).
          bind_err (set_longlong x ''allocated'' (data nparray) s) (\<lambda>s.
          bind_err (set_pointer x ''aligned'' \<lparr>pointee = ctp, address = data nparray\<rparr> s) (\<lambda>s.
          bind_err (set_longlong x ''offset'' 0 s) (\<lambda>s.
          Inr (x, s))))))
       else
         bind_err (make_nd_memref_descriptor (int (ndim nparray)) ctp s) (\<lambda>(T, s).
         bind_err (new_instance T s) (\<lambda>(x, s).
         bind_err (set_longlong x ''allocated'' (data nparray) s) (\<lambda>s.
         bind_err (set_pointer x ''aligned'' \<lparr>pointee = ctp, address = data nparray\<rparr> s) (\<lambda>s.
         bind_err (set_longlong x ''offset'' 0 s) (\<lambda>s.
         bind_err (set_array x ''shape'' (shape nparray) s) (\<lambda>s.
         bind_err (c_longlong_array_init (ndim nparray)
                     (map (\<lambda>x. sint x div int (itemsize (dtype nparray))) (strides nparray)))
           (\<lambda>strides_c.
         bind_err (set_array x ''strides'' strides_c s) (\<lambda>s.
         Inr (x, s))))))))))"

text \<open>\<^verbatim>\<open>get_unranked_memref_descriptor(nparray)\<close>.\<close>

definition get_unranked_memref_descriptor :: "bool \<Rightarrow> np_dtype ndarray \<Rightarrow> interp
    \<Rightarrow> error + struct_instance \<times> interp" where
  "get_unranked_memref_descriptor ml nparray s =
     bind_err (new_instance UnrankedMemRefDescriptor s) (\<lambda>(d, s).
     bind_err (set_longlong d ''rank'' (of_nat (ndim nparray)) s) (\<lambda>s.
     bind_err (get_ranked_memref_descriptor ml nparray s) (\<lambda>(x, s).
     bind_err (set_void_p d ''descriptor'' (address (pointer x)) s) (\<lambda>s.
     Inr (d, s)))))"

section \<open>Descriptor to array\<close>

text \<open>
  \<^verbatim>\<open>move_aligned_ptr_by_offset(aligned_ptr, offset)\<close>. \<^verbatim>\<open>aligned_ptr.contents\<close> raises
  \<^verbatim>\<open>ValueError\<close> on a NULL pointer; the sum is a Python integer, and \<^verbatim>\<open>ctypes.cast\<close>
  keeps its low 64 bits.
\<close>

definition move_aligned_ptr_by_offset :: "ctype pointer \<Rightarrow> int \<Rightarrow> error + ctype pointer" where
  "move_aligned_ptr_by_offset aligned_ptr offset =
     (if address aligned_ptr = 0 then Inl (ValueError ''NULL pointer access'')
      else
        (let aligned_addr = uint (address aligned_ptr);
             elem_size = int (sizeof (pointee aligned_ptr));
             shift = offset * elem_size
         in Inr \<lparr>pointee = pointee aligned_ptr, address = word_of_int (aligned_addr + shift)\<rparr>))"

text \<open>The byte strides of a C-contiguous array of the given extents.\<close>

fun c_contiguous :: "nat \<Rightarrow> longlong list \<Rightarrow> longlong list" where
  "c_contiguous sz [] = []"
| "c_contiguous sz (d # ds) = (of_nat sz * prod_list ds) # c_contiguous sz ds"

text \<open>
  \<^verbatim>\<open>np.ctypeslib.as_array(ptr, shape=shape)\<close>: numpy makes the ctypes array type of the
  extents, from the last extent to the first (\<^verbatim>\<open>for dim in shape[::-1]: element_type =
  dim * element_type\<close>), casts the pointer to it and dereferences (\<^verbatim>\<open>ValueError\<close> for
  NULL); the array is over the memory at the pointer's address. \<open>ctype_ndarray\<close> takes
  the size of the element type and the extents in the order of the loop.
\<close>

fun ctype_ndarray :: "nat \<Rightarrow> int list \<Rightarrow> error + nat" where
  "ctype_ndarray sz [] = Inr sz"
| "ctype_ndarray sz (d # ds) = bind_err (c_array_type sz d) (\<lambda>sz'. ctype_ndarray sz' ds)"

definition as_array :: "ctype pointer \<Rightarrow> longlong list \<Rightarrow> error + ctype ndarray" where
  "as_array ptr shp =
     bind_err (ctype_ndarray (sizeof (pointee ptr)) (rev (map sint shp))) (\<lambda>nbytes.
       if address ptr = 0 then Inl (ValueError ''NULL pointer access'')
       else Inr \<lparr>dtype = pointee ptr, data = address ptr, shape = shp,
                 strides = c_contiguous (sizeof (pointee ptr)) shp\<rparr>)"

text \<open>\<^verbatim>\<open>np.lib.stride_tricks.as_strided(x, shape, strides)\<close>.\<close>

definition as_strided :: "'d ndarray \<Rightarrow> longlong list \<Rightarrow> longlong list \<Rightarrow> 'd ndarray" where
  "as_strided x shp str = \<lparr>dtype = dtype x, data = data x, shape = shp, strides = str\<rparr>"

text \<open>
  \<^verbatim>\<open>ranked_memref_to_numpy(ranked_memref)\<close>; the argument is a pointer to a descriptor.
  \<^verbatim>\<open>np_arr.itemsize\<close> is the size of the ctypes element type, and the product with the
  strides is taken in 64-bit integers.
\<close>

definition ranked_memref_to_numpy :: "bool \<Rightarrow> struct_type pointer \<Rightarrow> interp
    \<Rightarrow> error + np_dtype ndarray" where
  "ranked_memref_to_numpy ml ranked_memref s =
     bind_err (bind_err (deref ranked_memref) (\<lambda>d. get_pointer s d ''aligned'')) (\<lambda>aligned.
     bind_err (bind_err (deref ranked_memref) (\<lambda>d. get_longlong s d ''offset'')) (\<lambda>offset.
     bind_err (move_aligned_ptr_by_offset aligned (sint offset)) (\<lambda>content_ptr.
     bind_err (bind_err (deref ranked_memref) (\<lambda>d. get_array s d ''shape'')) (\<lambda>shp.
     bind_err (as_array content_ptr shp) (\<lambda>np_arr.
     bind_err (bind_err (deref ranked_memref) (\<lambda>d. get_array s d ''shape'')) (\<lambda>shp'.
     bind_err (bind_err (deref ranked_memref) (\<lambda>d. get_array s d ''strides'')) (\<lambda>str.
     to_numpy ml
       (as_strided np_arr shp' (map (\<lambda>x. x * of_nat (sizeof (dtype np_arr))) str)))))))))"

text \<open>
  \<^verbatim>\<open>unranked_memref_to_numpy(unranked_memref, np_dtype)\<close>; the argument is a pointer to an
  \<^verbatim>\<open>UnrankedMemRefDescriptor\<close>. The cast reads the memory at the address in the field
  \<^verbatim>\<open>descriptor\<close> as a structure of the class just made.
\<close>

definition unranked_memref_to_numpy :: "bool \<Rightarrow> struct_type pointer \<Rightarrow> np_dtype \<Rightarrow> interp
    \<Rightarrow> error + np_dtype ndarray \<times> interp" where
  "unranked_memref_to_numpy ml unranked_memref np_dtype s =
     bind_err (as_ctype ml np_dtype) (\<lambda>ctp.
     bind_err (bind_err (deref unranked_memref) (\<lambda>u. get_longlong s u ''rank'')) (\<lambda>rank.
     bind_err (make_nd_memref_descriptor (sint rank) ctp s) (\<lambda>(descriptor, s).
     bind_err (bind_err (deref unranked_memref) (\<lambda>u. get_void_p s u ''descriptor'')) (\<lambda>p.
     (let val = \<lparr>pointee = descriptor, address = p\<rparr> in
     bind_err (bind_err (deref val) (\<lambda>d. get_pointer s d ''aligned'')) (\<lambda>aligned.
     bind_err (bind_err (deref val) (\<lambda>d. get_longlong s d ''offset'')) (\<lambda>offset.
     bind_err (move_aligned_ptr_by_offset aligned (sint offset)) (\<lambda>content_ptr.
     bind_err (bind_err (deref val) (\<lambda>d. get_array s d ''shape'')) (\<lambda>shp.
     bind_err (as_array content_ptr shp) (\<lambda>np_arr.
     bind_err (bind_err (deref val) (\<lambda>d. get_array s d ''shape'')) (\<lambda>shp'.
     bind_err (bind_err (deref val) (\<lambda>d. get_array s d ''strides'')) (\<lambda>str.
     bind_err (to_numpy ml
       (as_strided np_arr shp' (map (\<lambda>x. x * of_nat (sizeof (dtype np_arr))) str)))
       (\<lambda>r. Inr (r, s))))))))))))))"

section \<open>Round trips and the values used to state the properties\<close>

text \<open>
  \<^verbatim>\<open>ranked_memref_to_numpy(ctypes.pointer(get_ranked_memref_descriptor(nparray)))\<close> and
  \<^verbatim>\<open>unranked_memref_to_numpy(ctypes.pointer(get_unranked_memref_descriptor(nparray)),
  nparray.dtype)\<close>: both reverse conversions index their argument with \<^verbatim>\<open>[0]\<close>, so they
  take a pointer to the descriptor.
\<close>

definition ranked_roundtrip :: "bool \<Rightarrow> np_dtype ndarray \<Rightarrow> interp \<Rightarrow> error + np_dtype ndarray"
  where
  "ranked_roundtrip ml nparray s =
     bind_err (get_ranked_memref_descriptor ml nparray s)
       (\<lambda>(x, s). ranked_memref_to_numpy ml (pointer x) s)"

definition unranked_roundtrip :: "bool \<Rightarrow> np_dtype ndarray \<Rightarrow> interp \<Rightarrow> error + np_dtype ndarray"
  where
  "unranked_roundtrip ml nparray s =
     bind_err (get_unranked_memref_descriptor ml nparray s)
       (\<lambda>(d, s). bind_err (unranked_memref_to_numpy ml (pointer d) (dtype nparray) s)
          (\<lambda>(r, s). Inr r))"

text \<open>
  The element of an array at an index, as the bytes that numpy reads in the memory \<open>mem\<close>:
  \<open>itemsize\<close> bytes at the data address plus the sum of index times byte stride.
\<close>

definition element_address :: "'d ndarray \<Rightarrow> int list \<Rightarrow> addr" where
  "element_address a idx =
     data a + word_of_int (sum_list (map (\<lambda>(i, st). i * sint st) (zip idx (strides a))))"

definition getitem :: "(addr \<Rightarrow> byte) \<Rightarrow> np_dtype ndarray \<Rightarrow> int list \<Rightarrow> error + byte list" where
  "getitem mem a idx =
     (if length idx = ndim a \<and> list_all (\<lambda>(i, d). 0 \<le> i \<and> i < sint d) (zip idx (shape a))
      then Inr (map (\<lambda>j. mem (element_address a idx + of_nat j)) [0..<itemsize (dtype a)])
      else Inl IndexError)"

text \<open>
  The allocator hands out neither NULL nor the same address twice; the arrays of numpy have
  one stride per dimension, no negative extent and a data pointer that is not NULL.
\<close>

definition wf_interp :: "interp \<Rightarrow> bool" where
  "wf_interp s = (distinct (free_addrs s) \<and> list_all (\<lambda>p. p \<noteq> 0) (free_addrs s))"

definition wf_ndarray :: "'d ndarray \<Rightarrow> bool" where
  "wf_ndarray a =
     (length (strides a) = length (shape a) \<and> list_all (\<lambda>d. 0 \<le> sint d) (shape a)
      \<and> data a \<noteq> 0 \<and> length (shape a) \<le> 64)"

text \<open>
  The largest rank for which the descriptor class, 24 + 16 * rank bytes, has at most
  \<^verbatim>\<open>PY_SSIZE_T_MAX\<close> bytes. numpy makes no array of more than 64 dimensions.
\<close>

definition max_rank :: int where
  "max_rank = 2 ^ 59 - 2"

text \<open>
  The C array of the extents, and of every trailing part of them, has at most
  \<^verbatim>\<open>PY_SSIZE_T_MAX\<close> bytes. numpy makes no array for which this fails: it refuses an array
  whose item size times its extents other than 0 is more than that.
\<close>

fun c_array_fits :: "nat \<Rightarrow> int list \<Rightarrow> bool" where
  "c_array_fits sz [] = True"
| "c_array_fits sz (d # ds) =
     (c_array_fits sz ds \<and> int sz * (d * prod_list ds) \<le> PY_SSIZE_T_MAX)"

text \<open>Every byte stride of the array is a multiple of the item size.\<close>

definition element_aligned :: "np_dtype ndarray \<Rightarrow> bool" where
  "element_aligned a = list_all (\<lambda>st. int (itemsize (dtype a)) dvd sint st) (strides a)"

text \<open>
  The field lists of the two descriptor classes, the strides in elements that line 121 of
  the source computes, and the bytes of a descriptor filled from an array.
\<close>

definition nd_fields :: "nat \<Rightarrow> ctype \<Rightarrow> (string \<times> ftype) list" where
  "nd_fields r ctp =
     [(''allocated'', c_longlong), (''aligned'', POINTER ctp), (''offset'', c_longlong),
      (''shape'', c_longlong_array r), (''strides'', c_longlong_array r)]"

definition zero_d_fields :: "ctype \<Rightarrow> (string \<times> ftype) list" where
  "zero_d_fields ctp =
     [(''allocated'', c_longlong), (''aligned'', POINTER ctp), (''offset'', c_longlong)]"

definition nd_type :: "nat \<Rightarrow> nat \<Rightarrow> ctype \<Rightarrow> struct_type" where
  "nd_type c r ctp = \<lparr>cls_id = c, cls_name = ''MemRefDescriptor'', cls_fields = nd_fields r ctp\<rparr>"

definition zero_d_type :: "nat \<Rightarrow> ctype \<Rightarrow> struct_type" where
  "zero_d_type c ctp =
     \<lparr>cls_id = c, cls_name = ''MemRefDescriptor'', cls_fields = zero_d_fields ctp\<rparr>"

definition element_strides :: "np_dtype ndarray \<Rightarrow> longlong list" where
  "element_strides a = map (\<lambda>x. word_of_int (sint x div int (itemsize (dtype a)))) (strides a)"

definition nd_bytes :: "np_dtype ndarray \<Rightarrow> byte list" where
  "nd_bytes a = word_bytes (data a) @ word_bytes (data a) @ word_bytes 0
     @ concat (map word_bytes (shape a)) @ concat (map word_bytes (element_strides a))"

text \<open>
  The fields of the descriptor that \<^verbatim>\<open>get_ranked_memref_descriptor\<close> returns, read
  back from the returned object.
\<close>

definition stored_allocated :: "bool \<Rightarrow> np_dtype ndarray \<Rightarrow> interp \<Rightarrow> error + longlong" where
  "stored_allocated ml nparray s =
     bind_err (get_ranked_memref_descriptor ml nparray s) (\<lambda>(x, s). get_longlong s x ''allocated'')"

definition stored_aligned :: "bool \<Rightarrow> np_dtype ndarray \<Rightarrow> interp \<Rightarrow> error + ctype pointer" where
  "stored_aligned ml nparray s =
     bind_err (get_ranked_memref_descriptor ml nparray s) (\<lambda>(x, s). get_pointer s x ''aligned'')"

definition stored_offset :: "bool \<Rightarrow> np_dtype ndarray \<Rightarrow> interp \<Rightarrow> error + longlong" where
  "stored_offset ml nparray s =
     bind_err (get_ranked_memref_descriptor ml nparray s) (\<lambda>(x, s). get_longlong s x ''offset'')"

definition stored_shape :: "bool \<Rightarrow> np_dtype ndarray \<Rightarrow> interp \<Rightarrow> error + longlong list" where
  "stored_shape ml nparray s =
     bind_err (get_ranked_memref_descriptor ml nparray s) (\<lambda>(x, s). get_array s x ''shape'')"

definition stored_strides :: "bool \<Rightarrow> np_dtype ndarray \<Rightarrow> interp \<Rightarrow> error + longlong list" where
  "stored_strides ml nparray s =
     bind_err (get_ranked_memref_descriptor ml nparray s) (\<lambda>(x, s). get_array s x ''strides'')"

text \<open>The class of the returned descriptor.\<close>

definition descriptor_fields :: "bool \<Rightarrow> np_dtype ndarray \<Rightarrow> interp
    \<Rightarrow> error + (string \<times> ftype) list" where
  "descriptor_fields ml nparray s =
     bind_err (get_ranked_memref_descriptor ml nparray s) (\<lambda>(x, s). Inr (cls_fields (itype x)))"

text \<open>Example inputs.\<close>

definition s0 :: interp where
  "s0 = \<lparr>next_class = 1, free_addrs = [0x7000, 0x7100], heap = Map.empty\<rparr>"

definition A23 :: "np_dtype ndarray" where
  "A23 = \<lparr>dtype = np_float64, data = 0x1000, shape = [2, 3], strides = [24, 8]\<rparr>"

definition A0 :: "np_dtype ndarray" where
  "A0 = \<lparr>dtype = np_float32, data = 0x1000, shape = [], strides = []\<rparr>"

definition A_packed :: "np_dtype ndarray" where
  "A_packed = \<lparr>dtype = np_int32, data = 0x1000, shape = [3], strides = [5]\<rparr>"

definition A_odd :: "np_dtype ndarray" where
  "A_odd = \<lparr>dtype = np_float64, data = 0x1000, shape = [2], strides = [12]\<rparr>"

section \<open>The scalar-type registry\<close>

lemma sizeof_classes:
  "sizeof C128 = 16" "sizeof C64 = 8" "sizeof F16 = 2" "sizeof BF16 = 2" "sizeof F8E5M2 = 1"
  by code_simp+

declare sizeof.simps(2-) [simp del]

declare sizeof_classes [simp]

lemma as_ctypes_type_sizeof: "as_ctypes_type d = Inr t \<Longrightarrow> simple_sizeof t = itemsize d"
  by (cases d) auto

lemma as_ctypes_type_dtype: "as_ctypes_type d = Inr t \<Longrightarrow> simple_dtype t = d"
  by (cases d) auto

lemma as_ctype_sizeof: "as_ctype ml d = Inr c \<Longrightarrow> sizeof c = itemsize d"
  by (cases d; cases ml) (auto simp add: as_ctype_def)

lemma to_numpy_as_ctype:
  "as_ctype ml d = Inr c \<Longrightarrow> dtype arr = c \<Longrightarrow> to_numpy ml arr = Inr (view arr d)"
  by (cases d; cases ml) (auto simp add: as_ctype_def to_numpy_def)

text \<open>
  C5 (as the source has it). Without \<^verbatim>\<open>ml_dtypes\<close>, \<^verbatim>\<open>to_numpy\<close> on an array over
  \<^verbatim>\<open>BF16\<close> or \<^verbatim>\<open>F8E5M2\<close> raises the assertion that asks for the package. \<^verbatim>\<open>as_ctype\<close>
  on \<^verbatim>\<open>bfloat16\<close> or \<^verbatim>\<open>float8_e5m2\<close> does not: its two tests are guarded by
  \<^verbatim>\<open>ml_dtypes is not None\<close>, so the dtype goes to \<^verbatim>\<open>np.ctypeslib.as_ctypes_type\<close>,
  which raises \<^verbatim>\<open>NotImplementedError\<close>. Neither returns a layout or a view.
\<close>

theorem missing_registry_failure:
  "to_numpy False \<lparr>dtype = BF16, data = p, shape = shp, strides = str\<rparr>
     = Inl (AssertionError bfloat16_msg)
   \<and> to_numpy False \<lparr>dtype = F8E5M2, data = p, shape = shp, strides = str\<rparr>
     = Inl (AssertionError float8_e5m2_msg)
   \<and> as_ctype False np_bfloat16 = map_sum id Simple (as_ctypes_type np_bfloat16)
   \<and> as_ctype False np_float8_e5m2 = map_sum id Simple (as_ctypes_type np_float8_e5m2)
   \<and> as_ctype False np_bfloat16 = Inl NotImplementedError
   \<and> as_ctype False np_float8_e5m2 = Inl NotImplementedError"
  by (simp add: to_numpy_def as_ctype_def)

theorem missing_registry_failure_witness:
  "raises_missing_ml_dtypes
     (to_numpy False \<lparr>dtype = BF16, data = 0x1000, shape = [2], strides = [2]\<rparr>)
   \<and> raises_missing_ml_dtypes
     (to_numpy False \<lparr>dtype = F8E5M2, data = 0x1000, shape = [2], strides = [1]\<rparr>)
   \<and> as_ctype False np_bfloat16 = Inl NotImplementedError"
  using missing_registry_failure [of "0x1000" "[2]" "[2]"]
    missing_registry_failure [of "0x1000" "[2]" "[1]"]
  by simp

text \<open>
  C5 as stated fails: \<^verbatim>\<open>as_ctype\<close> for \<^verbatim>\<open>bfloat16\<close> without \<^verbatim>\<open>ml_dtypes\<close> does not
  raise the assertion that asks for the package.
\<close>

theorem as_ctype_bfloat16_not_missing_registry:
  "\<not> raises_missing_ml_dtypes (as_ctype False np_bfloat16)"
  by (simp add: as_ctype_def)

section \<open>The descriptor classes\<close>

lemma align_up_8: "align_up (k * 8) 8 = k * 8"
  by (simp add: align_up_def)

lemma layout_nd:
  "cls_fields T = nd_fields r ctp \<Longrightarrow> struct_layout T =
     [(''allocated'', 0, c_longlong), (''aligned'', 8, POINTER ctp), (''offset'', 16, c_longlong),
      (''shape'', 24, c_longlong_array r), (''strides'', 24 + r * 8, c_longlong_array r)]"
  using align_up_8 [of 0] align_up_8 [of 1] align_up_8 [of 2] align_up_8 [of 3]
    align_up_8 [of "3 + r"]
  by (simp add: struct_layout_def nd_fields_def Let_def algebra_simps)

lemma sizeof_nd:
  "cls_fields T = nd_fields r ctp \<Longrightarrow> sizeof_struct T = 24 + r * 16"
  using align_up_8 [of 0] align_up_8 [of 1] align_up_8 [of 2] align_up_8 [of 3]
    align_up_8 [of "3 + r"] align_up_8 [of "3 + 2 * r"]
  by (simp add: sizeof_struct_def struct_sizeof_def nd_fields_def algebra_simps)

lemma layout_zero_d:
  "cls_fields T = zero_d_fields ctp \<Longrightarrow> struct_layout T =
     [(''allocated'', 0, c_longlong), (''aligned'', 8, POINTER ctp), (''offset'', 16, c_longlong)]"
  using align_up_8 [of 0] align_up_8 [of 1] align_up_8 [of 2]
  by (simp add: struct_layout_def zero_d_fields_def Let_def)

lemma sizeof_zero_d:
  "cls_fields T = zero_d_fields ctp \<Longrightarrow> sizeof_struct T = 24"
  using align_up_8 [of 0] align_up_8 [of 1] align_up_8 [of 2] align_up_8 [of 3]
  by (simp add: sizeof_struct_def struct_sizeof_def zero_d_fields_def)

lemma c_array_type_ok:
  assumes "0 \<le> n" and "n \<le> PY_SSIZE_T_MAX" and "int sz * n \<le> PY_SSIZE_T_MAX"
  shows "c_array_type sz n = Inr (nat n * sz)"
proof (cases "sz = 0")
  case True
  with assms show ?thesis by (simp add: c_array_type_def)
next
  case False
  then have pos: "0 < int sz" by simp
  have "n = (n * int sz) div int sz" using pos by simp
  also have "\<dots> \<le> PY_SSIZE_T_MAX div int sz"
    using assms(3) pos by (intro zdiv_mono1) (simp_all add: mult.commute)
  finally have "\<not> PY_SSIZE_T_MAX div int sz < n" by simp
  with assms show ?thesis by (simp add: c_array_type_def)
qed

lemma make_nd_eq:
  assumes "0 \<le> rank" and "rank \<le> max_rank"
  shows "make_nd_memref_descriptor rank dtp s =
     Inr (nd_type (next_class s) (nat rank) dtp, s\<lparr>next_class := Suc (next_class s)\<rparr>)"
proof -
  have a: "c_array_type (ftype_sizeof c_longlong) rank = Inr (nat rank * 8)"
    using assms c_array_type_ok [of rank 8] by (simp add: max_rank_def PY_SSIZE_T_MAX_def)
  have T: "cls_fields (nd_type (next_class s) (nat rank) dtp) = nd_fields (nat rank) dtp"
    by (simp add: nd_type_def)
  have sz: "\<not> PY_SSIZE_T_MAX < int (sizeof_struct (nd_type (next_class s) (nat rank) dtp))"
    using assms by (simp add: sizeof_nd [OF T] max_rank_def PY_SSIZE_T_MAX_def)
  have eq: "\<lparr>cls_id = next_class s, cls_name = ''MemRefDescriptor'',
       cls_fields =
         [(''allocated'', c_longlong), (''aligned'', POINTER dtp), (''offset'', c_longlong),
          (''shape'', c_longlong_array (nat rank)), (''strides'', c_longlong_array (nat rank))]\<rparr>
      = nd_type (next_class s) (nat rank) dtp"
    by (simp add: nd_type_def nd_fields_def)
  show ?thesis
    unfolding make_nd_memref_descriptor_def a eq Let_def using sz
    by (simp add: bind_err_def)
qed

lemma make_nd_too_large:
  assumes "max_rank < rank" and "rank < 2 ^ 60"
  shows "make_nd_memref_descriptor rank dtp s = Inl MemoryError"
proof -
  from assms have r: "0 \<le> rank" by (simp add: max_rank_def)
  have a: "c_array_type (ftype_sizeof c_longlong) rank = Inr (nat rank * 8)"
    using assms r c_array_type_ok [of rank 8] by (simp add: PY_SSIZE_T_MAX_def)
  have T: "cls_fields (nd_type (next_class s) (nat rank) dtp) = nd_fields (nat rank) dtp"
    by (simp add: nd_type_def)
  have sz: "PY_SSIZE_T_MAX < int (sizeof_struct (nd_type (next_class s) (nat rank) dtp))"
    using assms r by (simp add: sizeof_nd [OF T] max_rank_def PY_SSIZE_T_MAX_def)
  have eq: "\<lparr>cls_id = next_class s, cls_name = ''MemRefDescriptor'',
       cls_fields =
         [(''allocated'', c_longlong), (''aligned'', POINTER dtp), (''offset'', c_longlong),
          (''shape'', c_longlong_array (nat rank)), (''strides'', c_longlong_array (nat rank))]\<rparr>
      = nd_type (next_class s) (nat rank) dtp"
    by (simp add: nd_type_def nd_fields_def)
  show ?thesis
    unfolding make_nd_memref_descriptor_def a eq Let_def using sz
    by (simp add: bind_err_def)
qed

lemma make_zero_d_eq:
  "make_zero_d_memref_descriptor dtp s =
     (zero_d_type (next_class s) dtp, s\<lparr>next_class := Suc (next_class s)\<rparr>)"
  by (simp add: make_zero_d_memref_descriptor_def zero_d_type_def zero_d_fields_def)

text \<open>
  C6 (as the source has it). For a rank from 0 to \<open>max_rank\<close> (2^59 - 2, the ranks for
  which the class has at most \<^verbatim>\<open>PY_SSIZE_T_MAX\<close> bytes),
  \<^verbatim>\<open>make_nd_memref_descriptor\<close> returns a class with the fields \<^verbatim>\<open>allocated\<close>
  (\<^verbatim>\<open>c_longlong\<close>), \<^verbatim>\<open>aligned\<close> (pointer to the element layout), \<^verbatim>\<open>offset\<close>
  (\<^verbatim>\<open>c_longlong\<close>), \<^verbatim>\<open>shape\<close> and \<^verbatim>\<open>strides\<close> (arrays of \<open>rank\<close>
  \<^verbatim>\<open>c_longlong\<close>), in this order; a \<^verbatim>\<open>c_longlong\<close> is as wide as a pointer
  (8 bytes), and the fields lie at the byte offsets 0, 8, 16, 24 and 24 + 8 * rank.
\<close>

theorem make_nd_memref_descriptor_layout:
  "0 \<le> rank \<Longrightarrow> rank \<le> max_rank \<Longrightarrow>
   (\<exists>T s'. make_nd_memref_descriptor rank dtp s = Inr (T, s')
      \<and> cls_fields T =
          [(''allocated'', c_longlong), (''aligned'', POINTER dtp), (''offset'', c_longlong),
           (''shape'', c_longlong_array (nat rank)), (''strides'', c_longlong_array (nat rank))]
      \<and> struct_layout T =
          [(''allocated'', 0, c_longlong), (''aligned'', 8, POINTER dtp),
           (''offset'', 16, c_longlong), (''shape'', 24, c_longlong_array (nat rank)),
           (''strides'', 24 + nat rank * 8, c_longlong_array (nat rank))]
      \<and> sizeof_struct T = 24 + nat rank * 16)
   \<and> ftype_sizeof c_longlong = ftype_sizeof (POINTER dtp)
   \<and> ftype_sizeof c_longlong = ftype_sizeof c_void_p
   \<and> ftype_sizeof (c_longlong_array (nat rank)) = nat rank * ftype_sizeof c_longlong"
proof -
  assume r: "0 \<le> rank" and m: "rank \<le> max_rank"
  have T: "cls_fields (nd_type (next_class s) (nat rank) dtp) = nd_fields (nat rank) dtp"
    by (simp add: nd_type_def)
  show ?thesis
    using layout_nd [OF T] sizeof_nd [OF T]
    by (simp add: make_nd_eq [OF r m] T) (simp add: nd_fields_def)
qed

theorem make_nd_memref_descriptor_layout_witness:
  "(0::int) \<le> 2 \<and> 2 \<le> max_rank \<and>
   (\<exists>T s'. make_nd_memref_descriptor 2 (Simple c_double) s0 = Inr (T, s')
      \<and> cls_fields T =
          [(''allocated'', c_longlong), (''aligned'', POINTER (Simple c_double)),
           (''offset'', c_longlong), (''shape'', c_longlong_array 2),
           (''strides'', c_longlong_array 2)]
      \<and> sizeof_struct T = 56)"
proof -
  have m: "2 \<le> max_rank" by (simp add: max_rank_def)
  show ?thesis
    using m make_nd_memref_descriptor_layout [of 2 "Simple c_double" s0] by fastforce
qed

text \<open>
  C6 as stated fails for a rank beyond \<open>max_rank\<close>: at rank 2^59 the class would have
  2^63 + 24 bytes, and no class is returned.
\<close>

theorem make_nd_memref_descriptor_rank_too_large:
  "make_nd_memref_descriptor (2 ^ 59) (Simple c_float) s0 = Inl MemoryError"
  using make_nd_too_large [of "2 ^ 59" "Simple c_float" s0]
  by (simp add: max_rank_def)

text \<open>
  C9. The two class makers read nothing of the interpreter state but the class counter and
  write nothing but it: two calls with the same arguments, in whatever states, give classes
  with the same name, the same fields in the same order, the same offsets and the same size
  (or raise the same exception), and leave the objects in memory as they are. As Python
  objects the two classes are different (they have different identities).
\<close>

theorem layout_builders_idempotent:
  "map_sum id (\<lambda>(T, s'). (cls_name T, cls_fields T, struct_layout T, sizeof_struct T))
      (make_nd_memref_descriptor rank dtp s1)
   = map_sum id (\<lambda>(T, s'). (cls_name T, cls_fields T, struct_layout T, sizeof_struct T))
      (make_nd_memref_descriptor rank dtp s2)
   \<and> map_sum id (\<lambda>(T, s'). (heap s', free_addrs s')) (make_nd_memref_descriptor rank dtp s1)
     = map_sum id (\<lambda>(T, s'). (heap s1, free_addrs s1)) (make_nd_memref_descriptor rank dtp s1)
   \<and> (\<lambda>(T, s'). (cls_name T, cls_fields T, struct_layout T, sizeof_struct T))
        (make_zero_d_memref_descriptor dtp s1)
     = (\<lambda>(T, s'). (cls_name T, cls_fields T, struct_layout T, sizeof_struct T))
        (make_zero_d_memref_descriptor dtp s2)
   \<and> (\<lambda>(T, s'). (heap s', free_addrs s')) (make_zero_d_memref_descriptor dtp s1)
     = (heap s1, free_addrs s1)"
  by (cases "c_array_type (ftype_sizeof c_longlong) rank")
     (simp_all add: make_nd_memref_descriptor_def make_zero_d_memref_descriptor_def
        bind_err_def Let_def struct_layout_def sizeof_struct_def)

theorem layout_builders_idempotent_witness:
  "map_sum id (\<lambda>(T, s'). (cls_name T, cls_fields T, struct_layout T, sizeof_struct T))
      (make_nd_memref_descriptor 2 (Simple c_double) s0)
   = map_sum id (\<lambda>(T, s'). (cls_name T, cls_fields T, struct_layout T, sizeof_struct T))
      (make_nd_memref_descriptor 2 (Simple c_double) (s0\<lparr>next_class := 7\<rparr>))
   \<and> map_sum id (\<lambda>(T, s'). cls_id T) (make_nd_memref_descriptor 2 (Simple c_double) s0)
     \<noteq> map_sum id (\<lambda>(T, s'). cls_id T)
         (make_nd_memref_descriptor 2 (Simple c_double) (s0\<lparr>next_class := 7\<rparr>))"
  using layout_builders_idempotent [of 2 "Simple c_double" s0 "s0\<lparr>next_class := 7\<rparr>"]
  by (simp add: make_nd_eq max_rank_def nd_type_def s0_def)

section \<open>Pointer arithmetic\<close>

text \<open>
  C3 (as the source has it). For a pointer that is not NULL and every integer offset \<open>k\<close>,
  \<^verbatim>\<open>move_aligned_ptr_by_offset\<close> returns a pointer of the same type whose address is the
  address of the argument plus \<open>k\<close> times the size of the element layout, in 64-bit address
  arithmetic. For a NULL pointer and every offset it raises \<^verbatim>\<open>ValueError\<close> (NULL pointer
  access).
\<close>

theorem move_aligned_ptr_by_offset_scaled:
  "(address p \<noteq> 0 \<longrightarrow>
      move_aligned_ptr_by_offset p k =
        Inr \<lparr>pointee = pointee p,
             address = address p + word_of_int (k * int (sizeof (pointee p)))\<rparr>)
   \<and> (address p = 0 \<longrightarrow>
      move_aligned_ptr_by_offset p k = Inl (ValueError ''NULL pointer access''))"
  by (simp add: move_aligned_ptr_by_offset_def)

theorem move_aligned_ptr_by_offset_scaled_witness:
  "address \<lparr>pointee = C128, address = 0x1000\<rparr> \<noteq> 0
   \<and> move_aligned_ptr_by_offset \<lparr>pointee = C128, address = 0x1000\<rparr> 3
       = Inr \<lparr>pointee = C128, address = 0x1030\<rparr>
   \<and> address \<lparr>pointee = C128, address = 0\<rparr> = 0
   \<and> move_aligned_ptr_by_offset \<lparr>pointee = C128, address = 0\<rparr> 3
       = Inl (ValueError ''NULL pointer access'')"
  using move_aligned_ptr_by_offset_scaled [of "\<lparr>pointee = C128, address = 0x1000\<rparr>" 3]
    move_aligned_ptr_by_offset_scaled [of "\<lparr>pointee = C128, address = 0\<rparr>" 3]
  by simp

text \<open>
  C3 as stated fails on the NULL pointer: \<^verbatim>\<open>aligned_ptr.contents\<close> raises
  \<^verbatim>\<open>ValueError\<close> and no pointer is returned.
\<close>

theorem move_aligned_ptr_by_offset_null:
  "move_aligned_ptr_by_offset \<lparr>pointee = Simple c_float, address = 0\<rparr> 1
     = Inl (ValueError ''NULL pointer access'')"
  by (simp add: move_aligned_ptr_by_offset_def)

section \<open>Bytes in memory\<close>

lemma bit_bytes_word_Cons:
  "bit (bytes_word (b # bs)) n = (if n < 8 then bit b n else bit (bytes_word bs) (n - 8) \<and> n < 64)"
  unfolding bytes_word_def
  by (auto simp add: bit_simps simp del: push_bit_eq_mult dest: bit_imp_le_length)

lemma bit_bytes_word:
  "bit (bytes_word bs) n \<longleftrightarrow> n < 64 \<and> n div 8 < length bs \<and> bit (bs ! (n div 8)) (n mod 8)"
proof (induction bs arbitrary: n)
  case Nil
  show ?case by (simp add: bytes_word_def)
next
  case (Cons b bs)
  show ?case
  proof (cases "n < 8")
    case True
    then show ?thesis by (simp add: bit_bytes_word_Cons)
  next
    case False
    then have d: "n div 8 = Suc ((n - 8) div 8)" and m: "n mod 8 = (n - 8) mod 8"
      by (simp_all add: le_div_geq le_mod_geq)
    have "n - 8 < 64 \<and> n < 64 \<longleftrightarrow> n < 64" by arith
    with False show ?thesis
      unfolding bit_bytes_word_Cons Cons.IH d m by auto
  qed
qed

lemma length_word_bytes: "length (word_bytes w) = 8"
  by (simp add: word_bytes_def)

lemma bytes_word_word_bytes: "bytes_word (word_bytes w) = w"
proof (rule bit_word_eqI)
  fix n assume "n < LENGTH(64)"
  then have n: "n < 64" by simp
  then have d: "n div 8 < 8" by simp
  have "bit (bytes_word (word_bytes w)) n \<longleftrightarrow> bit w (8 * (n div 8) + n mod 8)"
    using n d by (simp add: bit_bytes_word word_bytes_def bit_simps)
  then show "bit (bytes_word (word_bytes w)) n = bit w n" by simp
qed


lemma length_concat_word_bytes: "length (concat (map word_bytes ws)) = 8 * length ws"
  by (induction ws) (simp_all add: length_word_bytes)

lemma array_words_Suc:
  "length b = 8 \<Longrightarrow> array_words (Suc n) (b @ bs) = bytes_word b # array_words n bs"
  unfolding array_words_def
  by (simp add: map_upt_Suc del: upt_Suc)

lemma array_words_concat: "array_words (length ws) (concat (map word_bytes ws)) = ws"
proof (induction ws)
  case Nil
  show ?case by (simp add: array_words_def)
next
  case (Cons w ws)
  then show ?case
    by (simp add: array_words_Suc length_word_bytes bytes_word_word_bytes)
qed

lemma array_words_0: "array_words 0 bs = []"
  by (simp add: array_words_def)

lemma store_bytes_at:
  "length pre = off \<Longrightarrow> length old = length bs \<Longrightarrow>
     store_bytes off bs (pre @ old @ post) = pre @ bs @ post"
  by (simp add: store_bytes_def)

lemma take_drop_at:
  "length pre = off \<Longrightarrow> length fld = n \<Longrightarrow> take n (drop off (pre @ fld @ post)) = fld"
  by simp


section \<open>Writing and reading descriptors\<close>

lemma field_lookup_nd:
  assumes "cls_fields T = nd_fields r ctp"
  shows "field_lookup T ''allocated'' = Some (0, c_longlong)"
    and "field_lookup T ''aligned'' = Some (8, POINTER ctp)"
    and "field_lookup T ''offset'' = Some (16, c_longlong)"
    and "field_lookup T ''shape'' = Some (24, c_longlong_array r)"
    and "field_lookup T ''strides'' = Some (24 + r * 8, c_longlong_array r)"
  by (simp_all add: field_lookup_def layout_nd [OF assms])

lemma setattr_bytes_at:
  assumes "field_lookup (itype x) name = Some (off, t)" and "accepts t"
    and "length bs = ftype_sizeof t"
    and "heap s (iaddr x) = Some (pre @ old @ post)"
    and "length pre = off" and "length old = length bs"
  shows "setattr_bytes x name accepts bs s =
           Inr (s\<lparr>heap := (heap s)(iaddr x \<mapsto> pre @ bs @ post)\<rparr>)"
  using assms by (simp add: setattr_bytes_def store_bytes_at)

lemma setattr_bytes_end:
  assumes "field_lookup (itype x) name = Some (off, t)" and "accepts t"
    and "length bs = ftype_sizeof t"
    and "heap s (iaddr x) = Some (pre @ old)"
    and "length pre = off" and "length old = length bs"
  shows "setattr_bytes x name accepts bs s =
           Inr (s\<lparr>heap := (heap s)(iaddr x \<mapsto> pre @ bs)\<rparr>)"
  using assms by (simp add: setattr_bytes_def store_bytes_def)

lemma max_rank_64: "n \<le> 64 \<Longrightarrow> int n \<le> max_rank"
  by (simp add: max_rank_def)

lemma get_ranked_nd:
  assumes ctp: "as_ctype ml (dtype a) = Inr ctp"
    and r: "shape a \<noteq> []"
    and rk: "int (length (shape a)) \<le> max_rank"
    and len: "length (strides a) = length (shape a)"
    and free: "free_addrs s = p # rest"
  shows "get_ranked_memref_descriptor ml a s =
     Inr (\<lparr>itype = nd_type (next_class s) (length (shape a)) ctp, iaddr = p\<rparr>,
          s\<lparr>next_class := Suc (next_class s), free_addrs := rest,
            heap := (heap s)(p \<mapsto> nd_bytes a)\<rparr>)"
proof -
  let ?r = "length (shape a)"
  let ?T = "nd_type (next_class s) ?r ctp"
  let ?x = "\<lparr>itype = ?T, iaddr = p\<rparr>"
  let ?Z = "\<lambda>n. replicate n (0::byte)"
  let ?D = "word_bytes (data a)"
  let ?S = "concat (map word_bytes (shape a))"
  let ?E = "concat (map word_bytes (element_strides a))"
  let ?s = "\<lambda>buf. s\<lparr>next_class := Suc (next_class s), free_addrs := rest,
            heap := (heap s)(p \<mapsto> buf)\<rparr>"
  have T: "cls_fields ?T = nd_fields ?r ctp" by (simp add: nd_type_def)
  note fl = field_lookup_nd [OF T]
  have mk: "make_nd_memref_descriptor (int (ndim a)) ctp s =
      Inr (?T, s\<lparr>next_class := Suc (next_class s)\<rparr>)"
    using make_nd_eq [of "int (length (shape a))" ctp s] rk by (simp add: ndim_def)
  have Z: "?Z (sizeof_struct ?T) = [] @ ?Z 8 @ ?Z 8 @ ?Z 8 @ ?Z (?r * 8) @ ?Z (?r * 8)"
    by (simp add: sizeof_nd [OF T] replicate_add [symmetric])
  have new: "new_instance ?T (s\<lparr>next_class := Suc (next_class s)\<rparr>) =
      Inr (?x, ?s ([] @ ?Z 8 @ ?Z 8 @ ?Z 8 @ ?Z (?r * 8) @ ?Z (?r * 8)))"
    using free unfolding new_instance_def Z [symmetric] by simp
  have s1: "set_longlong ?x ''allocated'' (data a)
       (?s ([] @ ?Z 8 @ ?Z 8 @ ?Z 8 @ ?Z (?r * 8) @ ?Z (?r * 8))) =
      Inr (?s (?D @ ?Z 8 @ ?Z 8 @ ?Z (?r * 8) @ ?Z (?r * 8)))"
    unfolding set_longlong_def
    by (subst setattr_bytes_at [where pre = "[]" and old = "?Z 8" and off = 0 and t = c_longlong])
       (simp_all add: fl length_word_bytes)
  have s2: "set_pointer ?x ''aligned'' \<lparr>pointee = ctp, address = data a\<rparr>
       (?s (?D @ ?Z 8 @ ?Z 8 @ ?Z (?r * 8) @ ?Z (?r * 8))) =
      Inr (?s (?D @ ?D @ ?Z 8 @ ?Z (?r * 8) @ ?Z (?r * 8)))"
    unfolding set_pointer_def
    by (subst setattr_bytes_at [where pre = "?D" and old = "?Z 8" and off = 8 and t = "POINTER ctp"])
       (simp_all add: fl length_word_bytes)
  have s3: "set_longlong ?x ''offset'' 0
       (?s (?D @ ?D @ ?Z 8 @ ?Z (?r * 8) @ ?Z (?r * 8))) =
      Inr (?s (?D @ ?D @ word_bytes 0 @ ?Z (?r * 8) @ ?Z (?r * 8)))"
    unfolding set_longlong_def
    by (subst setattr_bytes_at [where pre = "?D @ ?D" and old = "?Z 8" and off = 16
          and t = c_longlong])
       (simp_all add: fl length_word_bytes)
  have s4: "set_array ?x ''shape'' (shape a)
       (?s (?D @ ?D @ word_bytes 0 @ ?Z (?r * 8) @ ?Z (?r * 8))) =
      Inr (?s (?D @ ?D @ word_bytes 0 @ ?S @ ?Z (?r * 8)))"
    unfolding set_array_def
    by (subst setattr_bytes_at [where pre = "?D @ ?D @ word_bytes 0" and old = "?Z (?r * 8)"
          and off = 24 and t = "c_longlong_array ?r"])
       (simp_all add: fl length_word_bytes length_concat_word_bytes)
  have init: "c_longlong_array_init (ndim a)
       (map (\<lambda>x. sint x div int (itemsize (dtype a))) (strides a)) = Inr (element_strides a)"
    by (simp add: c_longlong_array_init_def ndim_def len element_strides_def)
  have le: "length (element_strides a) = ?r"
    by (simp add: element_strides_def len)
  have s5: "set_array ?x ''strides'' (element_strides a)
       (?s (?D @ ?D @ word_bytes 0 @ ?S @ ?Z (?r * 8))) =
      Inr (?s (?D @ ?D @ word_bytes 0 @ ?S @ ?E))"
    unfolding set_array_def le
    by (subst setattr_bytes_end [where pre = "?D @ ?D @ word_bytes 0 @ ?S" and old = "?Z (?r * 8)"
          and off = "24 + ?r * 8" and t = "c_longlong_array ?r"])
       (simp_all add: fl length_word_bytes length_concat_word_bytes le)
  from r have nz: "ndim a \<noteq> 0" by (simp add: ndim_def)
  show ?thesis
    unfolding get_ranked_memref_descriptor_def
    by (simp add: ctp nz mk new s1 s2 s3 s4 init s5 bind_err_def nd_bytes_def
          del: append_Nil)
qed


lemma field_lookup_zero_d:
  assumes "cls_fields T = zero_d_fields ctp"
  shows "field_lookup T ''allocated'' = Some (0, c_longlong)"
    and "field_lookup T ''aligned'' = Some (8, POINTER ctp)"
    and "field_lookup T ''offset'' = Some (16, c_longlong)"
    and "field_lookup T ''shape'' = None"
    and "field_lookup T ''strides'' = None"
  by (simp_all add: field_lookup_def layout_zero_d [OF assms])

lemma get_ranked_zero_d:
  assumes ctp: "as_ctype ml (dtype a) = Inr ctp"
    and r: "shape a = []"
    and len: "strides a = []"
    and free: "free_addrs s = p # rest"
  shows "get_ranked_memref_descriptor ml a s =
     Inr (\<lparr>itype = zero_d_type (next_class s) ctp, iaddr = p\<rparr>,
          s\<lparr>next_class := Suc (next_class s), free_addrs := rest,
            heap := (heap s)(p \<mapsto> nd_bytes a)\<rparr>)"
proof -
  let ?T = "zero_d_type (next_class s) ctp"
  let ?x = "\<lparr>itype = ?T, iaddr = p\<rparr>"
  let ?Z = "\<lambda>n. replicate n (0::byte)"
  let ?D = "word_bytes (data a)"
  let ?s = "\<lambda>buf. s\<lparr>next_class := Suc (next_class s), free_addrs := rest,
            heap := (heap s)(p \<mapsto> buf)\<rparr>"
  have T: "cls_fields ?T = zero_d_fields ctp" by (simp add: zero_d_type_def)
  note fl = field_lookup_zero_d [OF T]
  have Z: "?Z (sizeof_struct ?T) = [] @ ?Z 8 @ ?Z 8 @ ?Z 8"
    by (simp add: sizeof_zero_d [OF T] replicate_add [symmetric])
  have new: "new_instance ?T (s\<lparr>next_class := Suc (next_class s)\<rparr>) =
      Inr (?x, ?s ([] @ ?Z 8 @ ?Z 8 @ ?Z 8))"
    using free unfolding new_instance_def Z [symmetric] by simp
  have s1: "set_longlong ?x ''allocated'' (data a) (?s ([] @ ?Z 8 @ ?Z 8 @ ?Z 8)) =
      Inr (?s (?D @ ?Z 8 @ ?Z 8))"
    unfolding set_longlong_def
    by (subst setattr_bytes_at [where pre = "[]" and old = "?Z 8" and off = 0 and t = c_longlong])
       (simp_all add: fl length_word_bytes)
  have s2: "set_pointer ?x ''aligned'' \<lparr>pointee = ctp, address = data a\<rparr>
       (?s (?D @ ?Z 8 @ ?Z 8)) = Inr (?s (?D @ ?D @ ?Z 8))"
    unfolding set_pointer_def
    by (subst setattr_bytes_at [where pre = "?D" and old = "?Z 8" and off = 8 and t = "POINTER ctp"])
       (simp_all add: fl length_word_bytes)
  have s3: "set_longlong ?x ''offset'' 0 (?s (?D @ ?D @ ?Z 8)) =
      Inr (?s (?D @ ?D @ word_bytes 0))"
    unfolding set_longlong_def
    by (subst setattr_bytes_end [where pre = "?D @ ?D" and old = "?Z 8" and off = 16
          and t = c_longlong])
       (simp_all add: fl length_word_bytes)
  from r have nz: "ndim a = 0" by (simp add: ndim_def)
  have nb: "nd_bytes a = ?D @ ?D @ word_bytes 0"
    by (simp add: nd_bytes_def r len element_strides_def)
  show ?thesis
    unfolding get_ranked_memref_descriptor_def
    by (simp add: ctp nz make_zero_d_eq new s1 s2 s3 bind_err_def nb del: append_Nil)
qed

lemma read_field_at:
  assumes "field_lookup (itype x) name = Some (off, t)"
    and "heap s (iaddr x) = Some (pre @ fld @ post)"
    and "length pre = off" and "length fld = ftype_sizeof t"
  shows "read_field s x name = Inr (t, fld)"
  using assms by (simp add: read_field_def)

lemma read_nd:
  assumes T: "cls_fields (itype x) = nd_fields r ctp"
    and h: "heap s (iaddr x) = Some (nd_bytes a)"
    and r: "length (shape a) = r" and len: "length (strides a) = r"
  shows "get_longlong s x ''allocated'' = Inr (data a)"
    and "get_pointer s x ''aligned'' = Inr \<lparr>pointee = ctp, address = data a\<rparr>"
    and "get_longlong s x ''offset'' = Inr 0"
    and "get_array s x ''shape'' = Inr (shape a)"
    and "get_array s x ''strides'' = Inr (element_strides a)"
proof -
  note fl = field_lookup_nd [OF T]
  let ?D = "word_bytes (data a)"
  let ?S = "concat (map word_bytes (shape a))"
  let ?E = "concat (map word_bytes (element_strides a))"
  have le: "length (element_strides a) = r"
    by (simp add: element_strides_def len)
  have h': "heap s (iaddr x) = Some (?D @ ?D @ word_bytes 0 @ ?S @ ?E)"
    using h by (simp add: nd_bytes_def)
  have "read_field s x ''allocated'' = Inr (c_longlong, ?D)"
    by (rule read_field_at [where pre = "[]" and post = "?D @ word_bytes 0 @ ?S @ ?E"])
       (simp_all add: fl h' length_word_bytes)
  then show "get_longlong s x ''allocated'' = Inr (data a)"
    by (simp add: get_longlong_def bind_err_def bytes_word_word_bytes)
  have "read_field s x ''aligned'' = Inr (POINTER ctp, ?D)"
    by (rule read_field_at [where pre = "?D" and post = "word_bytes 0 @ ?S @ ?E"])
       (simp_all add: fl h' length_word_bytes)
  then show "get_pointer s x ''aligned'' = Inr \<lparr>pointee = ctp, address = data a\<rparr>"
    by (simp add: get_pointer_def bind_err_def bytes_word_word_bytes)
  have "read_field s x ''offset'' = Inr (c_longlong, word_bytes 0)"
    by (rule read_field_at [where pre = "?D @ ?D" and post = "?S @ ?E"])
       (simp_all add: fl h' length_word_bytes)
  then show "get_longlong s x ''offset'' = Inr 0"
    by (simp add: get_longlong_def bind_err_def bytes_word_word_bytes)
  have "read_field s x ''shape'' = Inr (c_longlong_array r, ?S)"
    by (rule read_field_at [where pre = "?D @ ?D @ word_bytes 0" and post = "?E"])
       (simp_all add: fl h' length_word_bytes length_concat_word_bytes r)
  then show "get_array s x ''shape'' = Inr (shape a)"
    using array_words_concat [of "shape a"]
    by (simp add: get_array_def bind_err_def r)
  have "read_field s x ''strides'' = Inr (c_longlong_array r, ?E)"
    by (rule read_field_at [where pre = "?D @ ?D @ word_bytes 0 @ ?S" and post = "[]"])
       (simp_all add: fl h' length_word_bytes length_concat_word_bytes r le)
  then show "get_array s x ''strides'' = Inr (element_strides a)"
    using array_words_concat [of "element_strides a"]
    by (simp add: get_array_def bind_err_def le)
qed


lemma move_by_zero:
  "address q \<noteq> 0 \<Longrightarrow> move_aligned_ptr_by_offset q 0 = Inr q"
  by (simp add: move_aligned_ptr_by_offset_def)

lemma ctype_ndarray_append:
  "ctype_ndarray sz (xs @ ys) = bind_err (ctype_ndarray sz xs) (\<lambda>sz'. ctype_ndarray sz' ys)"
proof (induction xs arbitrary: sz)
  case Nil
  show ?case by (simp add: bind_err_def)
next
  case (Cons x xs)
  show ?case
    by (cases "c_array_type sz x") (simp_all add: bind_err_def Cons.IH)
qed

lemma ctype_ndarray_fits:
  assumes "list_all (\<lambda>d. 0 \<le> sint d) (shp :: 64 word list)"
    and "c_array_fits sz (map sint shp)"
  shows "ctype_ndarray sz (rev (map sint shp)) = Inr (sz * nat (prod_list (map sint shp)))"
  using assms
proof (induction shp)
  case Nil
  show ?case by simp
next
  case (Cons d ds)
  let ?P = "prod_list (map sint ds)"
  from Cons.prems have nn: "0 \<le> sint d" and nns: "list_all (\<lambda>d. 0 \<le> sint d) ds"
    and fits: "c_array_fits sz (map sint ds)"
    and le: "int sz * (sint d * ?P) \<le> PY_SSIZE_T_MAX"
    by simp_all
  from nns have P: "0 \<le> ?P"
    by (induction ds) simp_all
  have IH: "ctype_ndarray sz (rev (map sint ds)) = Inr (sz * nat ?P)"
    using Cons.IH [OF nns fits] .
  have "sint d < 2 ^ 63" using sint_lt [of d] by simp
  then have m: "sint d \<le> PY_SSIZE_T_MAX" by (simp add: PY_SSIZE_T_MAX_def)
  have "int (nat ?P) = ?P" using P by simp
  then have e: "int (sz * nat ?P) * sint d = int sz * (sint d * ?P)"
    by (simp add: ac_simps)
  have le': "int (sz * nat ?P) * sint d \<le> PY_SSIZE_T_MAX"
    using le unfolding e .
  have c: "c_array_type (sz * nat ?P) (sint d) = Inr (nat (sint d) * (sz * nat ?P))"
    by (rule c_array_type_ok [OF nn m le'])
  have "nat (sint d) * (sz * nat ?P) = sz * nat (sint d * ?P)"
    using nn P by (simp add: nat_mult_distrib)
  with c show ?case
    by (simp add: ctype_ndarray_append IH bind_err_def)
qed

text \<open>
  Extents whose C array has more than \<^verbatim>\<open>PY_SSIZE_T_MAX\<close> bytes are refused by
  \<^verbatim>\<open>as_array\<close>: two extents of 2^31 four-byte elements would take 2^64 bytes.
\<close>

lemma as_array_too_large:
  "as_array \<lparr>pointee = Simple c_float, address = 0x1000\<rparr> [2 ^ 31, 2 ^ 31]
     = Inl (OverflowError ''array too large'')"
  by (simp add: as_array_def c_array_type_def bind_err_def PY_SSIZE_T_MAX_def)

lemma ranked_memref_to_numpy_nd:
  assumes T: "cls_fields T = nd_fields r ctp"
    and h: "heap s p = Some (nd_bytes a)"
    and r: "length (shape a) = r" and len: "length (strides a) = r"
    and p: "p \<noteq> 0" and d: "data a \<noteq> 0"
    and nonneg: "list_all (\<lambda>d. 0 \<le> sint d) (shape a)"
    and fits: "c_array_fits (itemsize (dtype a)) (map sint (shape a))"
    and ctp: "as_ctype ml (dtype a) = Inr ctp"
  shows "ranked_memref_to_numpy ml \<lparr>pointee = T, address = p\<rparr> s =
     Inr \<lparr>dtype = dtype a, data = data a, shape = shape a,
          strides = map (\<lambda>x. x * of_nat (itemsize (dtype a))) (element_strides a)\<rparr>"
proof -
  let ?x = "\<lparr>itype = T, iaddr = p\<rparr>"
  have T': "cls_fields (itype ?x) = nd_fields r ctp" using T by simp
  have h': "heap s (iaddr ?x) = Some (nd_bytes a)" using h by simp
  note rd = read_nd [OF T' h' r len]
  have dr: "deref \<lparr>pointee = T, address = p\<rparr> = Inr ?x"
    using p by (simp add: deref_def)
  have mv: "move_aligned_ptr_by_offset \<lparr>pointee = ctp, address = data a\<rparr> 0
      = Inr \<lparr>pointee = ctp, address = data a\<rparr>"
    using d by (simp add: move_by_zero)
  have arr: "as_array \<lparr>pointee = ctp, address = data a\<rparr> (shape a) =
      Inr \<lparr>dtype = ctp, data = data a, shape = shape a,
           strides = c_contiguous (sizeof ctp) (shape a)\<rparr>"
    using d ctype_ndarray_fits [OF nonneg fits]
    by (simp add: as_array_def as_ctype_sizeof [OF ctp] bind_err_def)
  have tn: "to_numpy ml \<lparr>dtype = ctp, data = data a, shape = shape a,
        strides = map (\<lambda>x. x * of_nat (itemsize (dtype a))) (element_strides a)\<rparr>
      = Inr \<lparr>dtype = dtype a, data = data a, shape = shape a,
          strides = map (\<lambda>x. x * of_nat (itemsize (dtype a))) (element_strides a)\<rparr>"
    by (simp add: to_numpy_as_ctype [OF ctp] view_def)
  show ?thesis
    unfolding ranked_memref_to_numpy_def
    by (simp add: dr rd mv arr as_strided_def as_ctype_sizeof [OF ctp] tn bind_err_def)
qed

lemma ranked_memref_to_numpy_zero_d:
  assumes T: "cls_fields T = zero_d_fields ctp"
    and h: "heap s p = Some (nd_bytes a)"
    and r: "shape a = []" and len: "strides a = []"
    and p: "p \<noteq> 0" and d: "data a \<noteq> 0"
  shows "ranked_memref_to_numpy ml \<lparr>pointee = T, address = p\<rparr> s =
     Inl (AttributeError ''shape'')"
proof -
  let ?x = "\<lparr>itype = T, iaddr = p\<rparr>"
  let ?D = "word_bytes (data a)"
  note fl = field_lookup_zero_d [OF T]
  have h': "heap s p = Some (?D @ ?D @ word_bytes 0)"
    using h by (simp add: nd_bytes_def r len element_strides_def)
  have dr: "deref \<lparr>pointee = T, address = p\<rparr> = Inr ?x"
    using p by (simp add: deref_def)
  have "read_field s ?x ''aligned'' = Inr (POINTER ctp, ?D)"
    by (rule read_field_at [where pre = "?D" and post = "word_bytes 0"])
       (simp_all add: fl h' length_word_bytes)
  then have al: "get_pointer s ?x ''aligned'' = Inr \<lparr>pointee = ctp, address = data a\<rparr>"
    by (simp add: get_pointer_def bind_err_def bytes_word_word_bytes)
  have "read_field s ?x ''offset'' = Inr (c_longlong, word_bytes 0)"
    by (rule read_field_at [where pre = "?D @ ?D" and post = "[]"])
       (simp_all add: fl h' length_word_bytes)
  then have off: "get_longlong s ?x ''offset'' = Inr 0"
    by (simp add: get_longlong_def bind_err_def bytes_word_word_bytes)
  have sh: "get_array s ?x ''shape'' = Inl (AttributeError ''shape'')"
    by (simp add: get_array_def read_field_def fl bind_err_def)
  have mv: "move_aligned_ptr_by_offset \<lparr>pointee = ctp, address = data a\<rparr> 0
      = Inr \<lparr>pointee = ctp, address = data a\<rparr>"
    using d by (simp add: move_by_zero)
  show ?thesis
    unfolding ranked_memref_to_numpy_def
    by (simp add: dr al off mv sh bind_err_def)
qed

lemma aligned_element_strides:
  assumes "element_aligned a"
  shows "map (\<lambda>x. x * of_nat (itemsize (dtype a))) (element_strides a) = strides a"
proof -
  have "word_of_int (sint x div int n) * (of_nat n :: 64 word) = x" if "int n dvd sint x"
    for x :: "64 word" and n :: nat
  proof -
    have "word_of_int (sint x div int n) * (of_nat n :: 64 word)
        = word_of_int (sint x div int n * int n)"
      by simp
    also have "\<dots> = word_of_int (sint x)" using that by simp
    finally show ?thesis by simp
  qed
  with assms show ?thesis
    by (simp add: element_aligned_def element_strides_def list_all_iff map_idI)
qed

lemma read_zero_d:
  assumes T: "cls_fields (itype x) = zero_d_fields ctp"
    and h: "heap s (iaddr x) = Some (nd_bytes a)"
    and r: "shape a = []" and len: "strides a = []"
  shows "get_longlong s x ''allocated'' = Inr (data a)"
    and "get_pointer s x ''aligned'' = Inr \<lparr>pointee = ctp, address = data a\<rparr>"
    and "get_longlong s x ''offset'' = Inr 0"
    and "get_array s x ''shape'' = Inl (AttributeError ''shape'')"
    and "get_array s x ''strides'' = Inl (AttributeError ''strides'')"
proof -
  note fl = field_lookup_zero_d [OF T]
  let ?D = "word_bytes (data a)"
  have h': "heap s (iaddr x) = Some (?D @ ?D @ word_bytes 0)"
    using h by (simp add: nd_bytes_def r len element_strides_def)
  have "read_field s x ''allocated'' = Inr (c_longlong, ?D)"
    by (rule read_field_at [where pre = "[]" and post = "?D @ word_bytes 0"])
       (simp_all add: fl h' length_word_bytes)
  then show "get_longlong s x ''allocated'' = Inr (data a)"
    by (simp add: get_longlong_def bind_err_def bytes_word_word_bytes)
  have "read_field s x ''aligned'' = Inr (POINTER ctp, ?D)"
    by (rule read_field_at [where pre = "?D" and post = "word_bytes 0"])
       (simp_all add: fl h' length_word_bytes)
  then show "get_pointer s x ''aligned'' = Inr \<lparr>pointee = ctp, address = data a\<rparr>"
    by (simp add: get_pointer_def bind_err_def bytes_word_word_bytes)
  have "read_field s x ''offset'' = Inr (c_longlong, word_bytes 0)"
    by (rule read_field_at [where pre = "?D @ ?D" and post = "[]"])
       (simp_all add: fl h' length_word_bytes)
  then show "get_longlong s x ''offset'' = Inr 0"
    by (simp add: get_longlong_def bind_err_def bytes_word_word_bytes)
  show "get_array s x ''shape'' = Inl (AttributeError ''shape'')"
    by (simp add: get_array_def read_field_def fl bind_err_def)
  show "get_array s x ''strides'' = Inl (AttributeError ''strides'')"
    by (simp add: get_array_def read_field_def fl bind_err_def)
qed

lemma stored_nd:
  assumes ctp: "as_ctype ml (dtype a) = Inr ctp"
    and r: "shape a \<noteq> []"
    and rk: "int (length (shape a)) \<le> max_rank"
    and len: "length (strides a) = length (shape a)"
    and free: "free_addrs s \<noteq> []"
  shows "stored_allocated ml a s = Inr (data a)"
    and "stored_aligned ml a s = Inr \<lparr>pointee = ctp, address = data a\<rparr>"
    and "stored_offset ml a s = Inr 0"
    and "stored_shape ml a s = Inr (shape a)"
    and "stored_strides ml a s = Inr (element_strides a)"
    and "descriptor_fields ml a s = Inr (nd_fields (length (shape a)) ctp)"
proof -
  from free obtain p rest where f: "free_addrs s = p # rest" by (cases "free_addrs s") auto
  let ?x = "\<lparr>itype = nd_type (next_class s) (length (shape a)) ctp, iaddr = p\<rparr>"
  let ?s = "s\<lparr>next_class := Suc (next_class s), free_addrs := rest,
            heap := (heap s)(p \<mapsto> nd_bytes a)\<rparr>"
  note g = get_ranked_nd [OF ctp r rk len f]
  have T: "cls_fields (itype ?x) = nd_fields (length (shape a)) ctp"
    by (simp add: nd_type_def)
  have h: "heap ?s (iaddr ?x) = Some (nd_bytes a)" by simp
  note rd = read_nd [OF T h refl len]
  show "stored_allocated ml a s = Inr (data a)"
    unfolding stored_allocated_def g using rd(1) by (simp add: bind_err_def)
  show "stored_aligned ml a s = Inr \<lparr>pointee = ctp, address = data a\<rparr>"
    unfolding stored_aligned_def g using rd(2) by (simp add: bind_err_def)
  show "stored_offset ml a s = Inr 0"
    unfolding stored_offset_def g using rd(3) by (simp add: bind_err_def)
  show "stored_shape ml a s = Inr (shape a)"
    unfolding stored_shape_def g using rd(4) by (simp add: bind_err_def)
  show "stored_strides ml a s = Inr (element_strides a)"
    unfolding stored_strides_def g using rd(5) by (simp add: bind_err_def)
  show "descriptor_fields ml a s = Inr (nd_fields (length (shape a)) ctp)"
    unfolding descriptor_fields_def g using T by (simp add: bind_err_def)
qed

lemma stored_zero_d:
  assumes ctp: "as_ctype ml (dtype a) = Inr ctp"
    and r: "shape a = []" and len: "strides a = []"
    and free: "free_addrs s \<noteq> []"
  shows "stored_allocated ml a s = Inr (data a)"
    and "stored_aligned ml a s = Inr \<lparr>pointee = ctp, address = data a\<rparr>"
    and "stored_offset ml a s = Inr 0"
    and "stored_shape ml a s = Inl (AttributeError ''shape'')"
    and "stored_strides ml a s = Inl (AttributeError ''strides'')"
    and "descriptor_fields ml a s = Inr (zero_d_fields ctp)"
proof -
  from free obtain p rest where f: "free_addrs s = p # rest" by (cases "free_addrs s") auto
  let ?x = "\<lparr>itype = zero_d_type (next_class s) ctp, iaddr = p\<rparr>"
  let ?s = "s\<lparr>next_class := Suc (next_class s), free_addrs := rest,
            heap := (heap s)(p \<mapsto> nd_bytes a)\<rparr>"
  note g = get_ranked_zero_d [OF ctp r len f]
  have T: "cls_fields (itype ?x) = zero_d_fields ctp"
    by (simp add: zero_d_type_def)
  have h: "heap ?s (iaddr ?x) = Some (nd_bytes a)" by simp
  note rd = read_zero_d [OF T h r len]
  show "stored_allocated ml a s = Inr (data a)"
    unfolding stored_allocated_def g using rd(1) by (simp add: bind_err_def)
  show "stored_aligned ml a s = Inr \<lparr>pointee = ctp, address = data a\<rparr>"
    unfolding stored_aligned_def g using rd(2) by (simp add: bind_err_def)
  show "stored_offset ml a s = Inr 0"
    unfolding stored_offset_def g using rd(3) by (simp add: bind_err_def)
  show "stored_shape ml a s = Inl (AttributeError ''shape'')"
    unfolding stored_shape_def g using rd(4) by (simp add: bind_err_def)
  show "stored_strides ml a s = Inl (AttributeError ''strides'')"
    unfolding stored_strides_def g using rd(5) by (simp add: bind_err_def)
  show "descriptor_fields ml a s = Inr (zero_d_fields ctp)"
    unfolding descriptor_fields_def g using T by (simp add: bind_err_def)
qed

lemma ranked_roundtrip_nd:
  assumes ctp: "as_ctype ml (dtype a) = Inr ctp"
    and r: "shape a \<noteq> []"
    and wf: "wf_ndarray a"
    and fits: "c_array_fits (itemsize (dtype a)) (map sint (shape a))"
    and s: "wf_interp s" and free: "free_addrs s \<noteq> []"
  shows "ranked_roundtrip ml a s =
     Inr \<lparr>dtype = dtype a, data = data a, shape = shape a,
          strides = map (\<lambda>x. x * of_nat (itemsize (dtype a))) (element_strides a)\<rparr>"
proof -
  from free obtain p rest where f: "free_addrs s = p # rest" by (cases "free_addrs s") auto
  from s f have p: "p \<noteq> 0" by (simp add: wf_interp_def)
  from wf have len: "length (strides a) = length (shape a)" and d: "data a \<noteq> 0"
    and nn: "list_all (\<lambda>d. 0 \<le> sint d) (shape a)"
    and rk: "int (length (shape a)) \<le> max_rank"
    by (simp_all add: wf_ndarray_def max_rank_64)
  let ?T = "nd_type (next_class s) (length (shape a)) ctp"
  let ?s = "s\<lparr>next_class := Suc (next_class s), free_addrs := rest,
            heap := (heap s)(p \<mapsto> nd_bytes a)\<rparr>"
  note g = get_ranked_nd [OF ctp r rk len f]
  have T: "cls_fields ?T = nd_fields (length (shape a)) ctp"
    by (simp add: nd_type_def)
  have h: "heap ?s p = Some (nd_bytes a)" by simp
  note rt = ranked_memref_to_numpy_nd [OF T h refl len p d nn fits ctp]
  show ?thesis
    unfolding ranked_roundtrip_def g using rt by (simp add: bind_err_def pointer_def)
qed

lemma ranked_roundtrip_zero_d:
  assumes ctp: "as_ctype ml (dtype a) = Inr ctp"
    and r: "shape a = []" and len: "strides a = []" and d: "data a \<noteq> 0"
    and s: "wf_interp s" and free: "free_addrs s \<noteq> []"
  shows "ranked_roundtrip ml a s = Inl (AttributeError ''shape'')"
proof -
  from free obtain p rest where f: "free_addrs s = p # rest" by (cases "free_addrs s") auto
  from s f have p: "p \<noteq> 0" by (simp add: wf_interp_def)
  let ?T = "zero_d_type (next_class s) ctp"
  let ?s = "s\<lparr>next_class := Suc (next_class s), free_addrs := rest,
            heap := (heap s)(p \<mapsto> nd_bytes a)\<rparr>"
  note g = get_ranked_zero_d [OF ctp r len f]
  have T: "cls_fields ?T = zero_d_fields ctp"
    by (simp add: zero_d_type_def)
  have h: "heap ?s p = Some (nd_bytes a)" by simp
  note rt = ranked_memref_to_numpy_zero_d [OF T h r len p d]
  show ?thesis
    unfolding ranked_roundtrip_def g using rt by (simp add: bind_err_def pointer_def)
qed

section \<open>Forward conversion\<close>

text \<open>
  C8. For an array of rank at least 1 (and at most \<open>max_rank\<close>, as every array of numpy
  is) whose dtype has a layout, with one stride per
  dimension, and when the descriptor can be allocated, the descriptor that
  \<^verbatim>\<open>get_ranked_memref_descriptor\<close> returns has \<^verbatim>\<open>allocated\<close> and \<^verbatim>\<open>aligned\<close> at
  the array's data address, \<^verbatim>\<open>offset\<close> 0 and in \<^verbatim>\<open>shape\<close> the extents of the array in
  their order.
\<close>

theorem get_ranked_memref_descriptor_fields:
  assumes "as_ctype ml (dtype a) = Inr ctp"
    and "1 \<le> ndim a"
    and "length (strides a) = length (shape a)"
    and "free_addrs s \<noteq> []"
    and "int (ndim a) \<le> max_rank"
  shows "stored_allocated ml a s = Inr (data a)
    \<and> stored_aligned ml a s = Inr \<lparr>pointee = ctp, address = data a\<rparr>
    \<and> stored_offset ml a s = Inr 0
    \<and> stored_shape ml a s = Inr (shape a)"
proof -
  from assms(2) have r: "shape a \<noteq> []" by (auto simp add: ndim_def)
  from assms(5) have rk: "int (length (shape a)) \<le> max_rank" by (simp add: ndim_def)
  show ?thesis
    using stored_nd(1-4) [OF assms(1) r rk assms(3,4)] by simp
qed

theorem get_ranked_memref_descriptor_fields_witness:
  "as_ctype True (dtype A23) = Inr (Simple c_double)
    \<and> 1 \<le> ndim A23
    \<and> length (strides A23) = length (shape A23)
    \<and> free_addrs s0 \<noteq> []
    \<and> int (ndim A23) \<le> max_rank
    \<and> stored_allocated True A23 s0 = Inr 0x1000
    \<and> stored_aligned True A23 s0 = Inr \<lparr>pointee = Simple c_double, address = 0x1000\<rparr>
    \<and> stored_offset True A23 s0 = Inr 0
    \<and> stored_shape True A23 s0 = Inr [2, 3]"
proof -
  have h: "as_ctype True (dtype A23) = Inr (Simple c_double)" "1 \<le> ndim A23"
    "length (strides A23) = length (shape A23)" "free_addrs s0 \<noteq> []"
    "int (ndim A23) \<le> max_rank"
    by (simp_all add: A23_def s0_def as_ctype_def ndim_def max_rank_def)
  show ?thesis
    using h get_ranked_memref_descriptor_fields [OF h] by (simp add: A23_def)
qed

text \<open>
  C2 (as the source has it). When every byte stride of the array (of rank at most
  \<open>max_rank\<close>, as every array of numpy is) is a multiple of the item
  size, the strides stored in the descriptor are the byte strides divided by the item size,
  and each of them times the item size is the byte stride of its dimension again.
\<close>

theorem stride_unit_inversion:
  assumes "as_ctype ml (dtype a) = Inr ctp"
    and "1 \<le> ndim a"
    and "length (strides a) = length (shape a)"
    and "free_addrs s \<noteq> []"
    and "element_aligned a"
    and "int (ndim a) \<le> max_rank"
  shows "\<exists>es. stored_strides ml a s = Inr es
    \<and> es = map (\<lambda>x. word_of_int (sint x div int (itemsize (dtype a)))) (strides a)
    \<and> length es = ndim a
    \<and> (\<forall>i < ndim a. es ! i * of_nat (itemsize (dtype a)) = strides a ! i)"
proof -
  from assms(2) have r: "shape a \<noteq> []" by (auto simp add: ndim_def)
  from assms(6) have rk: "int (length (shape a)) \<le> max_rank" by (simp add: ndim_def)
  have len: "length (element_strides a) = ndim a"
    by (simp add: element_strides_def ndim_def assms(3))
  have "(element_strides a ! i) * of_nat (itemsize (dtype a)) = strides a ! i" if "i < ndim a" for i
  proof -
    have "map (\<lambda>x. x * of_nat (itemsize (dtype a))) (element_strides a) ! i = strides a ! i"
      by (simp only: aligned_element_strides [OF assms(5)])
    then show ?thesis using that len by simp
  qed
  then show ?thesis
    using stored_nd(5) [OF assms(1) r rk assms(3,4)] len
    by (simp add: element_strides_def)
qed

theorem stride_unit_inversion_witness:
  "as_ctype True (dtype A23) = Inr (Simple c_double)
    \<and> 1 \<le> ndim A23
    \<and> length (strides A23) = length (shape A23)
    \<and> free_addrs s0 \<noteq> []
    \<and> element_aligned A23
    \<and> int (ndim A23) \<le> max_rank
    \<and> stored_strides True A23 s0 = Inr [3, 1]"
proof -
  have h: "as_ctype True (dtype A23) = Inr (Simple c_double)" "1 \<le> ndim A23"
    "length (strides A23) = length (shape A23)" "free_addrs s0 \<noteq> []" "element_aligned A23"
    "int (ndim A23) \<le> max_rank"
    by (simp_all add: A23_def s0_def as_ctype_def ndim_def element_aligned_def max_rank_def)
  show ?thesis
    using h stride_unit_inversion [OF h] by (auto simp add: A23_def)
qed

text \<open>
  C2 as stated fails when a byte stride is not a multiple of the item size: the field of
  32-bit integers in a packed record of 5 bytes has byte stride 5; line 121 stores
  \<^verbatim>\<open>5 // 4 = 1\<close>, and 1 times 4 is not 5.
\<close>

theorem stride_unit_inversion_packed_field:
  "stored_strides True A_packed s0 = Inr [1]
   \<and> map (\<lambda>e. e * of_nat (itemsize (dtype A_packed))) [1] \<noteq> strides A_packed"
proof -
  have h: "as_ctype True (dtype A_packed) = Inr (Simple c_int32)" "shape A_packed \<noteq> []"
    "int (length (shape A_packed)) \<le> max_rank"
    "length (strides A_packed) = length (shape A_packed)" "free_addrs s0 \<noteq> []"
    by (simp_all add: A_packed_def s0_def as_ctype_def max_rank_def)
  show ?thesis
    using stored_nd(5) [OF h] by (simp add: A_packed_def element_strides_def)
qed

section \<open>The unranked descriptor\<close>

lemma layout_unranked:
  "struct_layout UnrankedMemRefDescriptor =
     [(''rank'', 0, c_longlong), (''descriptor'', 8, c_void_p)]"
  "sizeof_struct UnrankedMemRefDescriptor = 16"
  using align_up_8 [of 0] align_up_8 [of 1] align_up_8 [of 2]
  by (simp_all add: struct_layout_def sizeof_struct_def struct_sizeof_def
      UnrankedMemRefDescriptor_def Let_def)

lemma field_lookup_unranked:
  "field_lookup UnrankedMemRefDescriptor ''rank'' = Some (0, c_longlong)"
  "field_lookup UnrankedMemRefDescriptor ''descriptor'' = Some (8, c_void_p)"
  by (simp_all add: field_lookup_def layout_unranked)

lemma get_unranked_eq:
  assumes f: "free_addrs s = p1 # p2 # rest" and ne: "p1 \<noteq> p2"
    and g: "\<And>s'. free_addrs s' = p2 # rest \<Longrightarrow>
      get_ranked_memref_descriptor ml a s' =
        Inr (\<lparr>itype = T (next_class s'), iaddr = p2\<rparr>,
             s'\<lparr>next_class := Suc (next_class s'), free_addrs := rest,
               heap := (heap s')(p2 \<mapsto> nd_bytes a)\<rparr>)"
  shows "\<exists>s'. get_unranked_memref_descriptor ml a s =
        Inr (\<lparr>itype = UnrankedMemRefDescriptor, iaddr = p1\<rparr>, s')
      \<and> heap s' p1 = Some (word_bytes (of_nat (ndim a)) @ word_bytes p2)
      \<and> heap s' p2 = Some (nd_bytes a)"
proof -
  let ?U = UnrankedMemRefDescriptor
  let ?d = "\<lparr>itype = ?U, iaddr = p1\<rparr>"
  let ?Z = "\<lambda>n. replicate n (0::byte)"
  let ?N = "word_bytes (of_nat (ndim a))"
  let ?s1 = "\<lambda>buf. s\<lparr>free_addrs := p2 # rest, heap := (heap s)(p1 \<mapsto> buf)\<rparr>"
  note fl = field_lookup_unranked
  have Z: "?Z (sizeof_struct ?U) = [] @ ?Z 8 @ ?Z 8"
    by (simp add: layout_unranked replicate_add [symmetric])
  have new: "new_instance ?U s = Inr (?d, ?s1 ([] @ ?Z 8 @ ?Z 8))"
    using f unfolding new_instance_def Z [symmetric] by simp
  have s1: "set_longlong ?d ''rank'' (of_nat (ndim a)) (?s1 ([] @ ?Z 8 @ ?Z 8)) =
      Inr (?s1 (?N @ ?Z 8))"
    unfolding set_longlong_def
    by (subst setattr_bytes_at [where pre = "[]" and old = "?Z 8" and off = 0 and t = c_longlong])
       (simp_all add: fl length_word_bytes)
  let ?s2 = "(?s1 (?N @ ?Z 8))\<lparr>next_class := Suc (next_class s), free_addrs := rest,
               heap := (heap (?s1 (?N @ ?Z 8)))(p2 \<mapsto> nd_bytes a)\<rparr>"
  have g': "get_ranked_memref_descriptor ml a (?s1 (?N @ ?Z 8)) =
      Inr (\<lparr>itype = T (next_class s), iaddr = p2\<rparr>, ?s2)"
    using g [of "?s1 (?N @ ?Z 8)"] by simp
  have h2: "heap ?s2 (iaddr ?d) = Some (?N @ ?Z 8)"
    using ne by simp
  have s3: "set_void_p ?d ''descriptor'' p2 ?s2 =
      Inr (?s2\<lparr>heap := (heap ?s2)(iaddr ?d \<mapsto> ?N @ word_bytes p2)\<rparr>)"
    unfolding set_void_p_def
    by (rule setattr_bytes_end [where old = "?Z 8" and off = 8 and t = c_void_p])
       (simp_all add: fl length_word_bytes ne)
  have "get_unranked_memref_descriptor ml a s =
      Inr (?d, ?s2\<lparr>heap := (heap ?s2)(iaddr ?d \<mapsto> ?N @ word_bytes p2)\<rparr>)"
    unfolding get_unranked_memref_descriptor_def
    by (simp add: new s1 g' s3 [simplified] bind_err_def pointer_def del: append_Nil)
  moreover have "heap (?s2\<lparr>heap := (heap ?s2)(iaddr ?d \<mapsto> ?N @ word_bytes p2)\<rparr>) p2
      = Some (nd_bytes a)"
    using ne by simp
  ultimately show ?thesis by simp
qed

lemma bind_err_assoc:
  "bind_err (bind_err m f) g = bind_err m (\<lambda>x. bind_err (f x) g)"
  by (cases m) (simp_all add: bind_err_def)

lemma unranked_via_ranked:
  "unranked_memref_to_numpy ml u dt s =
     bind_err (as_ctype ml dt) (\<lambda>ctp.
     bind_err (bind_err (deref u) (\<lambda>d. get_longlong s d ''rank'')) (\<lambda>rank.
     bind_err (make_nd_memref_descriptor (sint rank) ctp s) (\<lambda>(descriptor, s').
     bind_err (bind_err (deref u) (\<lambda>d. get_void_p s' d ''descriptor'')) (\<lambda>p.
     bind_err (ranked_memref_to_numpy ml \<lparr>pointee = descriptor, address = p\<rparr> s')
       (\<lambda>r. Inr (r, s'))))))"
  unfolding unranked_memref_to_numpy_def ranked_memref_to_numpy_def Let_def
  by (simp only: bind_err_assoc)

lemma sint_of_nat_small: "r \<le> 64 \<Longrightarrow> sint (of_nat r :: 64 word) = int r"
  by (simp add: signed_of_nat signed_take_bit_int_eq_self)


lemma unranked_memref_to_numpy_eq:
  assumes ctp: "as_ctype ml (dtype a) = Inr ctp"
    and h1: "heap s p1 = Some (word_bytes (of_nat (ndim a)) @ word_bytes p2)"
    and h2: "heap s p2 = Some (nd_bytes a)"
    and wf: "wf_ndarray a" and p1: "p1 \<noteq> 0" and p2: "p2 \<noteq> 0"
    and fits: "c_array_fits (itemsize (dtype a)) (map sint (shape a))"
  shows "unranked_memref_to_numpy ml \<lparr>pointee = UnrankedMemRefDescriptor, address = p1\<rparr>
        (dtype a) s =
     Inr (\<lparr>dtype = dtype a, data = data a, shape = shape a,
           strides = map (\<lambda>x. x * of_nat (itemsize (dtype a))) (element_strides a)\<rparr>,
          s\<lparr>next_class := Suc (next_class s)\<rparr>)"
proof -
  let ?u = "\<lparr>itype = UnrankedMemRefDescriptor, iaddr = p1\<rparr>"
  let ?N = "word_bytes (of_nat (ndim a))"
  let ?s = "s\<lparr>next_class := Suc (next_class s)\<rparr>"
  let ?T = "nd_type (next_class s) (ndim a) ctp"
  from wf have len: "length (strides a) = ndim a" and d: "data a \<noteq> 0"
    and nn: "list_all (\<lambda>d. 0 \<le> sint d) (shape a)" and r64: "ndim a \<le> 64"
    by (simp_all add: wf_ndarray_def ndim_def)
  note fl = field_lookup_unranked
  have dr: "deref \<lparr>pointee = UnrankedMemRefDescriptor, address = p1\<rparr> = Inr ?u"
    using p1 by (simp add: deref_def)
  have "read_field s ?u ''rank'' = Inr (c_longlong, ?N)"
    by (rule read_field_at [where pre = "[]" and post = "word_bytes p2"])
       (simp_all add: fl h1 length_word_bytes)
  then have rank: "get_longlong s ?u ''rank'' = Inr (of_nat (ndim a))"
    by (simp add: get_longlong_def bind_err_def bytes_word_word_bytes)
  have "read_field ?s ?u ''descriptor'' = Inr (c_void_p, word_bytes p2)"
    by (rule read_field_at [where pre = "?N" and post = "[]"])
       (simp_all add: fl h1 length_word_bytes)
  then have desc: "get_void_p ?s ?u ''descriptor'' = Inr p2"
    by (simp add: get_void_p_def bind_err_def bytes_word_word_bytes)
  have mk: "make_nd_memref_descriptor (sint (of_nat (ndim a) :: 64 word)) ctp s = Inr (?T, ?s)"
    using make_nd_eq [of "int (ndim a)" ctp s] max_rank_64 [OF r64]
    by (simp add: sint_of_nat_small [OF r64])
  have T: "cls_fields ?T = nd_fields (ndim a) ctp" by (simp add: nd_type_def)
  have h2': "heap ?s p2 = Some (nd_bytes a)" using h2 by simp
  have sh: "length (shape a) = ndim a" by (simp add: ndim_def)
  note rt = ranked_memref_to_numpy_nd [OF T h2' sh len p2 d nn fits ctp]
  show ?thesis
    unfolding unranked_via_ranked
    by (simp add: ctp dr rank mk desc rt bind_err_def)
qed

lemma unranked_roundtrip_eq:
  assumes ctp: "as_ctype ml (dtype a) = Inr ctp"
    and wf: "wf_ndarray a"
    and fits: "c_array_fits (itemsize (dtype a)) (map sint (shape a))"
    and s: "wf_interp s" and free: "2 \<le> length (free_addrs s)"
  shows "unranked_roundtrip ml a s =
     Inr \<lparr>dtype = dtype a, data = data a, shape = shape a,
          strides = map (\<lambda>x. x * of_nat (itemsize (dtype a))) (element_strides a)\<rparr>"
proof -
  from free obtain p1 p2 rest where f: "free_addrs s = p1 # p2 # rest"
    by (cases "free_addrs s"; cases "tl (free_addrs s)") auto
  from s f have p1: "p1 \<noteq> 0" and p2: "p2 \<noteq> 0" and ne: "p1 \<noteq> p2"
    by (auto simp add: wf_interp_def)
  from wf have len: "length (strides a) = length (shape a)"
    and rk: "int (length (shape a)) \<le> max_rank"
    by (simp_all add: wf_ndarray_def max_rank_64)
  have "\<exists>T. \<forall>s'. free_addrs s' = p2 # rest \<longrightarrow>
      get_ranked_memref_descriptor ml a s' =
        Inr (\<lparr>itype = T (next_class s'), iaddr = p2\<rparr>,
             s'\<lparr>next_class := Suc (next_class s'), free_addrs := rest,
               heap := (heap s')(p2 \<mapsto> nd_bytes a)\<rparr>)"
  proof (cases "shape a = []")
    case True
    with len have st: "strides a = []" by simp
    show ?thesis
      by (rule exI [where x = "\<lambda>c. zero_d_type c ctp"])
         (simp add: get_ranked_zero_d [OF ctp True st])
  next
    case False
    show ?thesis
      by (rule exI [where x = "\<lambda>c. nd_type c (length (shape a)) ctp"])
         (simp add: get_ranked_nd [OF ctp False rk len])
  qed
  then obtain T where g: "\<And>s'. free_addrs s' = p2 # rest \<Longrightarrow>
      get_ranked_memref_descriptor ml a s' =
        Inr (\<lparr>itype = T (next_class s'), iaddr = p2\<rparr>,
             s'\<lparr>next_class := Suc (next_class s'), free_addrs := rest,
               heap := (heap s')(p2 \<mapsto> nd_bytes a)\<rparr>)"
    by blast
  from get_unranked_eq [OF f ne g] obtain s' where
    u: "get_unranked_memref_descriptor ml a s =
        Inr (\<lparr>itype = UnrankedMemRefDescriptor, iaddr = p1\<rparr>, s')"
    and h1: "heap s' p1 = Some (word_bytes (of_nat (ndim a)) @ word_bytes p2)"
    and h2: "heap s' p2 = Some (nd_bytes a)"
    by blast
  note rt = unranked_memref_to_numpy_eq [OF ctp h1 h2 wf p1 p2 fits]
  show ?thesis
    unfolding unranked_roundtrip_def u using rt by (simp add: bind_err_def pointer_def)
qed

section \<open>Round trip through the ranked descriptor\<close>

text \<open>
  C1 (as the source has it). For an array of rank at least 1 whose dtype has a layout, whose
  byte strides are multiples of the item size, with extents that are not negative, a data
  pointer that is not NULL and, as for every array of numpy, at most \<^verbatim>\<open>PY_SSIZE_T_MAX\<close>
  bytes in the C array of its extents, \<^verbatim>\<open>ranked_memref_to_numpy\<close> on a pointer to the descriptor of
  \<^verbatim>\<open>get_ranked_memref_descriptor\<close> returns a view with the dtype, the data address, the
  shape and the byte strides of the array, and so with the same element at every index in
  every memory.
\<close>

theorem ranked_roundtrip_identity:
  assumes "as_ctype ml (dtype a) = Inr ctp"
    and "1 \<le> ndim a"
    and "wf_ndarray a"
    and "element_aligned a"
    and "wf_interp s" and "free_addrs s \<noteq> []"
    and "c_array_fits (itemsize (dtype a)) (map sint (shape a))"
  shows "\<exists>v. ranked_roundtrip ml a s = Inr v
    \<and> dtype v = dtype a \<and> data v = data a \<and> shape v = shape a \<and> strides v = strides a
    \<and> (\<forall>mem idx. getitem mem v idx = getitem mem a idx)"
proof -
  from assms(2) have r: "shape a \<noteq> []" by (auto simp add: ndim_def)
  have "ranked_roundtrip ml a s = Inr a"
    using ranked_roundtrip_nd [OF assms(1) r assms(3,7,5,6)]
    by (simp add: aligned_element_strides [OF assms(4)])
  then show ?thesis by simp
qed

theorem ranked_roundtrip_identity_witness:
  "as_ctype True (dtype A23) = Inr (Simple c_double)
    \<and> 1 \<le> ndim A23 \<and> wf_ndarray A23 \<and> element_aligned A23
    \<and> wf_interp s0 \<and> free_addrs s0 \<noteq> []
    \<and> c_array_fits (itemsize (dtype A23)) (map sint (shape A23))
    \<and> ranked_roundtrip True A23 s0 = Inr A23"
proof -
  have h: "as_ctype True (dtype A23) = Inr (Simple c_double)" "1 \<le> ndim A23"
    "wf_ndarray A23" "element_aligned A23" "wf_interp s0" "free_addrs s0 \<noteq> []"
    "c_array_fits (itemsize (dtype A23)) (map sint (shape A23))"
    by (simp_all add: A23_def s0_def as_ctype_def ndim_def element_aligned_def wf_ndarray_def
        wf_interp_def PY_SSIZE_T_MAX_def)
  from ranked_roundtrip_identity [OF h] obtain v where
    "ranked_roundtrip True A23 s0 = Inr v" "dtype v = dtype A23" "data v = data A23"
    "shape v = shape A23" "strides v = strides A23"
    by blast
  then show ?thesis using h by simp
qed

text \<open>
  C1 as stated fails when a byte stride is not a multiple of the item size: an array of
  8-byte floats with byte stride 12 comes back with byte stride 8.
\<close>

theorem ranked_roundtrip_unaligned_stride:
  "ranked_roundtrip True A_odd s0 =
     Inr \<lparr>dtype = np_float64, data = 0x1000, shape = [2], strides = [8]\<rparr>
   \<and> strides A_odd \<noteq> [8]"
proof -
  have h: "as_ctype True (dtype A_odd) = Inr (Simple c_double)" "shape A_odd \<noteq> []"
    "wf_ndarray A_odd" "c_array_fits (itemsize (dtype A_odd)) (map sint (shape A_odd))"
    "wf_interp s0" "free_addrs s0 \<noteq> []"
    by (simp_all add: A_odd_def s0_def as_ctype_def wf_ndarray_def wf_interp_def
        PY_SSIZE_T_MAX_def)
  show ?thesis
    using ranked_roundtrip_nd [OF h] by (simp add: A_odd_def element_strides_def)
qed

text \<open>
  C4 on the code. For a 0-dimensional array of 4-byte floats, \<^verbatim>\<open>get_ranked_memref_descriptor\<close>
  returns a descriptor of the class with the three fields \<^verbatim>\<open>allocated\<close>, \<^verbatim>\<open>aligned\<close>
  and \<^verbatim>\<open>offset\<close>, the first two at the data address and the offset 0. On a pointer to it
  \<^verbatim>\<open>ranked_memref_to_numpy\<close> raises \<^verbatim>\<open>AttributeError\<close>: it reads
  \<^verbatim>\<open>ranked_memref[0].shape\<close>, and the class has no such field.
\<close>

theorem rank0_ranked_path:
  "descriptor_fields True A0 s0 =
     Inr [(''allocated'', c_longlong), (''aligned'', POINTER (Simple c_float)),
          (''offset'', c_longlong)]
   \<and> stored_allocated True A0 s0 = Inr 0x1000
   \<and> stored_aligned True A0 s0 = Inr \<lparr>pointee = Simple c_float, address = 0x1000\<rparr>
   \<and> stored_offset True A0 s0 = Inr 0
   \<and> ranked_roundtrip True A0 s0 = Inl (AttributeError ''shape'')"
proof -
  have h: "as_ctype True (dtype A0) = Inr (Simple c_float)" "shape A0 = []" "strides A0 = []"
    by (simp_all add: A0_def as_ctype_def)
  have d: "data A0 \<noteq> 0" and s: "wf_interp s0" and f: "free_addrs s0 \<noteq> []"
    by (simp_all add: A0_def s0_def wf_interp_def)
  show ?thesis
    using stored_zero_d(1,2,3,6) [OF h f] ranked_roundtrip_zero_d [OF h d s f]
    by (simp add: A0_def zero_d_fields_def)
qed

section \<open>Round trip through the unranked descriptor\<close>

text \<open>
  For an array of rank at least 1 the unranked round trip gives what the ranked round trip
  gives.
\<close>

lemma unranked_consistent_rank_pos:
  assumes "as_ctype ml (dtype a) = Inr ctp"
    and "1 \<le> ndim a"
    and "wf_ndarray a"
    and "wf_interp s" and "2 \<le> length (free_addrs s)"
    and "c_array_fits (itemsize (dtype a)) (map sint (shape a))"
  shows "unranked_roundtrip ml a s = ranked_roundtrip ml a s"
proof -
  from assms(2) have r: "shape a \<noteq> []" by (auto simp add: ndim_def)
  from assms(5) have f: "free_addrs s \<noteq> []" by auto
  show ?thesis
    by (simp add: unranked_roundtrip_eq [OF assms(1,3,6,4,5)]
        ranked_roundtrip_nd [OF assms(1) r assms(3,6,4) f])
qed

text \<open>
  C7 on the code. For a 0-dimensional array the two round trips differ: through the unranked
  descriptor the array comes back, through the ranked descriptor \<^verbatim>\<open>AttributeError\<close> is
  raised.
\<close>

theorem unranked_ranked_differ_rank0:
  "unranked_roundtrip True A0 s0 = Inr A0
   \<and> ranked_roundtrip True A0 s0 = Inl (AttributeError ''shape'')"
proof -
  have h: "as_ctype True (dtype A0) = Inr (Simple c_float)" "shape A0 = []" "strides A0 = []"
    by (simp_all add: A0_def as_ctype_def)
  have d: "data A0 \<noteq> 0" and s: "wf_interp s0" and f: "free_addrs s0 \<noteq> []"
    and f2: "2 \<le> length (free_addrs s0)" and wf: "wf_ndarray A0"
    and fits: "c_array_fits (itemsize (dtype A0)) (map sint (shape A0))"
    by (simp_all add: A0_def s0_def wf_interp_def wf_ndarray_def)
  show ?thesis
    using unranked_roundtrip_eq [OF h(1) wf fits s f2] ranked_roundtrip_zero_d [OF h d s f]
    by (simp add: A0_def element_strides_def)
qed

text \<open>
  C10. The class of \<^verbatim>\<open>make_zero_d_memref_descriptor\<close> and the class of
  \<^verbatim>\<open>make_nd_memref_descriptor\<close> for rank 0 have the same size, and the layout of the
  second is the layout of the first followed by the two arrays of length 0, which take no
  bytes at the end of the structure. So the descriptor of a 0-dimensional array, read as
  an instance of the class for rank 0, has \<^verbatim>\<open>allocated\<close> and \<^verbatim>\<open>aligned\<close> at the
  data address, \<^verbatim>\<open>offset\<close> 0 and empty \<^verbatim>\<open>shape\<close> and \<^verbatim>\<open>strides\<close>, and
  \<^verbatim>\<open>unranked_memref_to_numpy\<close> gives the 0-dimensional array back.
\<close>

theorem zero_rank_layout_coincidence:
  assumes "as_ctype ml (dtype a) = Inr ctp"
    and "ndim a = 0"
    and "wf_ndarray a"
    and "wf_interp s" and "2 \<le> length (free_addrs s)"
  shows "\<exists>Z s1 N s2 x s'.
      make_zero_d_memref_descriptor ctp s = (Z, s1)
    \<and> make_nd_memref_descriptor 0 ctp s = Inr (N, s2)
    \<and> sizeof_struct Z = sizeof_struct N
    \<and> struct_layout N = struct_layout Z
         @ [(''shape'', sizeof_struct Z, c_longlong_array 0),
            (''strides'', sizeof_struct Z, c_longlong_array 0)]
    \<and> ftype_sizeof (c_longlong_array 0) = 0
    \<and> get_ranked_memref_descriptor ml a s = Inr (x, s')
    \<and> itype x = Z
    \<and> get_longlong s' (x\<lparr>itype := N\<rparr>) ''allocated'' = Inr (data a)
    \<and> get_pointer s' (x\<lparr>itype := N\<rparr>) ''aligned'' = Inr \<lparr>pointee = ctp, address = data a\<rparr>
    \<and> get_longlong s' (x\<lparr>itype := N\<rparr>) ''offset'' = Inr 0
    \<and> get_array s' (x\<lparr>itype := N\<rparr>) ''shape'' = Inr []
    \<and> get_array s' (x\<lparr>itype := N\<rparr>) ''strides'' = Inr []
    \<and> unranked_roundtrip ml a s = Inr a"
proof -
  from assms(2) have sh: "shape a = []" by (simp add: ndim_def)
  with assms(3) have st: "strides a = []" by (simp add: wf_ndarray_def)
  from assms(5) obtain p rest where f: "free_addrs s = p # rest"
    by (cases "free_addrs s") auto
  let ?Z = "zero_d_type (next_class s) ctp"
  let ?N = "nd_type (next_class s) 0 ctp"
  let ?x = "\<lparr>itype = ?Z, iaddr = p\<rparr>"
  let ?s = "s\<lparr>next_class := Suc (next_class s), free_addrs := rest,
            heap := (heap s)(p \<mapsto> nd_bytes a)\<rparr>"
  have Z: "cls_fields ?Z = zero_d_fields ctp" by (simp add: zero_d_type_def)
  have N: "cls_fields ?N = nd_fields 0 ctp" by (simp add: nd_type_def)
  have N': "cls_fields (itype (?x\<lparr>itype := ?N\<rparr>)) = nd_fields 0 ctp" using N by simp
  have h: "heap ?s (iaddr (?x\<lparr>itype := ?N\<rparr>)) = Some (nd_bytes a)" by simp
  have l0: "length (shape a) = 0" "length (strides a) = 0" using sh st by simp_all
  note rd = read_nd [OF N' h l0]
  have es: "element_strides a = []" by (simp add: element_strides_def st)
  have a: "\<lparr>dtype = dtype a, data = data a, shape = [], strides = []\<rparr> = a"
    using sh st by simp
  have fits: "c_array_fits (itemsize (dtype a)) (map sint (shape a))"
    by (simp add: sh)
  have u: "unranked_roundtrip ml a s = Inr a"
    using unranked_roundtrip_eq [OF assms(1,3) fits assms(4,5)] by (simp add: es sh a)
  have g: "get_ranked_memref_descriptor ml a s = Inr (?x, ?s)"
    by (rule get_ranked_zero_d [OF assms(1) sh st f])
  have lay: "struct_layout ?N = struct_layout ?Z
         @ [(''shape'', sizeof_struct ?Z, c_longlong_array 0),
            (''strides'', sizeof_struct ?Z, c_longlong_array 0)]"
    by (simp add: layout_nd [OF N] layout_zero_d [OF Z] sizeof_zero_d [OF Z])
  have sz: "sizeof_struct ?Z = sizeof_struct ?N"
    by (simp add: sizeof_nd [OF N] sizeof_zero_d [OF Z])
  show ?thesis
    apply (rule exI [where x = ?Z])
    apply (rule exI [where x = "s\<lparr>next_class := Suc (next_class s)\<rparr>"])
    apply (rule exI [where x = ?N])
    apply (rule exI [where x = "s\<lparr>next_class := Suc (next_class s)\<rparr>"])
    apply (rule exI [where x = ?x])
    apply (rule exI [where x = ?s])
    using rd u g lay sz
    apply (simp add: make_zero_d_eq make_nd_eq max_rank_def sh es del: fun_upd_apply)
    done
qed

theorem zero_rank_layout_coincidence_witness:
  "as_ctype True (dtype A0) = Inr (Simple c_float)
    \<and> ndim A0 = 0 \<and> wf_ndarray A0 \<and> wf_interp s0 \<and> 2 \<le> length (free_addrs s0)
    \<and> unranked_roundtrip True A0 s0 = Inr A0"
proof -
  have h: "as_ctype True (dtype A0) = Inr (Simple c_float)" "ndim A0 = 0" "wf_ndarray A0"
    "wf_interp s0" "2 \<le> length (free_addrs s0)"
    by (simp_all add: A0_def s0_def as_ctype_def ndim_def wf_ndarray_def wf_interp_def)
  from zero_rank_layout_coincidence [OF h] have "unranked_roundtrip True A0 s0 = Inr A0"
    by blast
  then show ?thesis using h by simp
qed

end
